theory Spec2Isabelle
  imports
    Main
    "HOL-Library.Word"
    "HOL-Library.Multiset"
    "HOL-Library.Char_ord"
    "HOL-Library.List_Lexorder"
begin

section \<open>Data model of main.go\<close>

text \<open>
  Go's \<open>int\<close> is a 64-bit two's complement integer on the 64-bit platforms the tool is
  built for: \<open>+\<close> and \<open>-\<close> wrap around, comparisons are signed (\<open>sint\<close>).
\<close>

type_synonym goint = "64 word"

text \<open>\<^verbatim>\<open>type DayItem struct { Date string; Confirmed, Deaths, Recovered int }\<close>\<close>

record DayItem =
  Date :: string
  Confirmed :: goint
  Deaths :: goint
  Recovered :: goint

text \<open>\<^verbatim>\<open>type Pair struct { Key string; Value int }\<close> and \<^verbatim>\<open>type PairList []Pair\<close>\<close>

record Pair =
  Key :: string
  Value :: goint

type_synonym PairList = "Pair list"

text \<open>
  The package-level variables \<^verbatim>\<open>AllValues\<close>, \<^verbatim>\<open>NameSortedCountries\<close> and
  \<^verbatim>\<open>ValueSortedCountries\<close>. A Go map is a finite partial map.
\<close>

record globals =
  AllValues :: "string \<rightharpoonup> DayItem list"
  NameSortedCountries :: "string list"
  ValueSortedCountries :: PairList

definition init_globals :: globals where
  "init_globals =
     \<lparr>AllValues = Map.empty, NameSortedCountries = [], ValueSortedCountries = []\<rparr>"

text \<open>
  How a function of the program can fail: with one of the two error values it returns
  (\<^verbatim>\<open>jsonparser.MalformedObjectError\<close> out of \<^verbatim>\<open>FetchData\<close>,
  \<^verbatim>\<open>errors.New("country not found in dataset")\<close> out of the query functions), or with
  the run-time panic of an index out of range, which ends the process.
\<close>

datatype failure =
    MalformedObjectError
  | CountryNotFound
  | PanicIndexOutOfRange

text \<open>
  \<^verbatim>\<open>s[i]\<close> on a slice: Go checks the index and panics outside \<open>0 \<le> i < len(s)\<close>.
\<close>

definition index :: "'a list \<Rightarrow> int \<Rightarrow> failure + 'a" where
  "index s i =
     (if 0 \<le> i \<and> i < int (length s) then Inr (s ! nat i) else Inl PanicIndexOutOfRange)"

text \<open>
  \<^verbatim>\<open>AllValues[k]\<close> as an expression: a missing key reads as the zero value, the nil slice.
\<close>

definition lookup :: "(string \<rightharpoonup> DayItem list) \<Rightarrow> string \<Rightarrow> DayItem list" where
  "lookup m k = (case m k of None \<Rightarrow> [] | Some s \<Rightarrow> s)"

text \<open>
  \<^verbatim>\<open>for k, v := range m\<close> visits every entry of the map once, in an order the language
  leaves open. A loop over a map is modelled as a loop over the list \<open>es\<close> of entries in the
  order of the visit; \<open>range_order m es\<close> says that \<open>es\<close> is such a visit of \<open>m\<close>.
\<close>

definition range_order :: "(string \<rightharpoonup> DayItem list) \<Rightarrow> (string \<times> DayItem list) list \<Rightarrow> bool" where
  "range_order m es = (distinct (map fst es) \<and> map_of es = m)"

section \<open>PrintSummary\<close>

text \<open>
  Lines 238-244, after \<^verbatim>\<open>FetchData\<close> returned nil: the loop over \<^verbatim>\<open>AllValues\<close> adds the
  last record of every country to three counters. \<^verbatim>\<open>items[len(items)-1]\<close> panics on an
  empty series.
\<close>

fun PrintSummary_loop ::
  "(string \<times> DayItem list) list \<Rightarrow> goint \<times> goint \<times> goint \<Rightarrow> failure + goint \<times> goint \<times> goint" where
  "PrintSummary_loop [] acc = Inr acc"
| "PrintSummary_loop ((k, items) # rest) (c, d, r) =
     (case index items (int (length items) - 1) of
        Inl e \<Rightarrow> Inl e
      | Inr lItem \<Rightarrow>
          PrintSummary_loop rest (c + Confirmed lItem, d + Deaths lItem, r + Recovered lItem))"

definition PrintSummary :: "(string \<times> DayItem list) list \<Rightarrow> failure + goint \<times> goint \<times> goint" where
  "PrintSummary es = PrintSummary_loop es (0, 0, 0)"

section \<open>PrintCountry\<close>

text \<open>
  A table row: country, confirmed, deaths, recovered, new cases, new deaths, new
  recoveries.
\<close>

type_synonym Row = "string \<times> goint \<times> goint \<times> goint \<times> goint \<times> goint \<times> goint"

text \<open>
  Lines 271-278 and, word for word, lines 282-289: the last and the last but one record
  of a series and the row made of them. Either index can be out of range.
\<close>

definition deltaRow :: "string \<Rightarrow> DayItem list \<Rightarrow> failure + Row" where
  "deltaRow name items =
     (case index items (int (length items) - 1) of
        Inl e \<Rightarrow> Inl e
      | Inr lItem \<Rightarrow>
          (case index items (int (length items) - 2) of
             Inl e \<Rightarrow> Inl e
           | Inr mlItem \<Rightarrow>
               Inr (name, Confirmed lItem, Deaths lItem, Recovered lItem,
                    Confirmed lItem - Confirmed mlItem,
                    Deaths lItem - Deaths mlItem,
                    Recovered lItem - Recovered mlItem)))"

text \<open>
  Lines 267-279: the loop over \<^verbatim>\<open>ValueSortedCountries\<close>, left when \<^verbatim>\<open>idx == max\<close>.
\<close>

fun PrintCountry_all ::
  "(string \<rightharpoonup> DayItem list) \<Rightarrow> int \<Rightarrow> int \<Rightarrow> PairList \<Rightarrow> Row list \<Rightarrow> failure + Row list" where
  "PrintCountry_all av mx idx [] rows = Inr rows"
| "PrintCountry_all av mx idx (p # ps) rows =
     (if idx = mx then Inr rows
      else (case deltaRow (Key p) (lookup av (Key p)) of
              Inl e \<Rightarrow> Inl e
            | Inr row \<Rightarrow> PrintCountry_all av mx (idx + 1) ps (rows @ [row])))"

text \<open>
  \<^verbatim>\<open>PrintCountry(country, max)\<close> after \<^verbatim>\<open>FetchData\<close> returned nil, on the globals it left:
  the rows appended to the table, or the failure.
\<close>

definition PrintCountry :: "globals \<Rightarrow> string \<Rightarrow> int \<Rightarrow> failure + Row list" where
  "PrintCountry g country mx =
     (if country = ''all'' then PrintCountry_all (AllValues g) mx 0 (ValueSortedCountries g) []
      else (case AllValues g country of
              Some countryItem \<Rightarrow>
                (case deltaRow country countryItem of
                   Inl e \<Rightarrow> Inl e
                 | Inr row \<Rightarrow> Inr [row])
            | None \<Rightarrow> Inl CountryNotFound))"

section \<open>The charts\<close>

text \<open>
  The charts hold \<^verbatim>\<open>float64\<close> values. The model leaves the floating-point arithmetic
  open: a chart function takes the three operations it uses, the constant \<^verbatim>\<open>0.0\<close> (the
  zero value a missing map key reads as), the addition and the conversion
  \<^verbatim>\<open>float64(n)\<close> of an \<^verbatim>\<open>int\<close>. What is proved holds for every such arithmetic, so for
  IEEE 754 with its rounding too.
\<close>

record 'f float64_ops =
  zero64 :: 'f
  add64 :: "'f \<Rightarrow> 'f \<Rightarrow> 'f"
  float64 :: "goint \<Rightarrow> 'f"

text \<open>
  On integers of magnitude below \<open>2 ^ 53\<close> the conversion and the addition of
  \<^verbatim>\<open>float64\<close> are exact, so on small counts they are those of the integers.
\<close>

definition exact64 :: "int float64_ops" where
  "exact64 = \<lparr>zero64 = 0, add64 = (+), float64 = sint\<rparr>"

text \<open>\<^verbatim>\<open>m[k]\<close> on a \<^verbatim>\<open>map[string]float64\<close>.\<close>

definition getf :: "'f float64_ops \<Rightarrow> (string \<rightharpoonup> 'f) \<Rightarrow> string \<Rightarrow> 'f" where
  "getf F m k = (case m k of None \<Rightarrow> zero64 F | Some v \<Rightarrow> v)"

text \<open>
  The loop the source writes four times (lines 346-357, 368-377, 463-474, 485-493), with
  its body as a parameter:
  \<^verbatim>\<open>for i := len(countryItem)-1; i >= 0; i-- { j++; body; if j == max { break } }\<close>.
  The index stays below \<^verbatim>\<open>len(countryItem)\<close>, as it starts there and only decreases, so
  the reads of the body are in range.
\<close>

function lastDays_loop ::
  "(DayItem \<Rightarrow> 'st \<Rightarrow> 'st) \<Rightarrow> int \<Rightarrow> DayItem list \<Rightarrow> int \<Rightarrow> int \<Rightarrow> 'st \<Rightarrow> 'st" where
  "lastDays_loop body mx countryItem i j st =
     (if 0 \<le> i then
        (if j + 1 = mx then body (countryItem ! nat i) st
         else lastDays_loop body mx countryItem (i - 1) (j + 1) (body (countryItem ! nat i) st))
      else st)"
  by pat_completeness auto
termination
  by (relation "measure (\<lambda>(body, mx, countryItem, i, j, st). nat (i + 1))") auto

declare lastDays_loop.simps [simp del]

text \<open>
  \<^verbatim>\<open>ReverseStrings\<close> and \<^verbatim>\<open>ReverseFloats\<close> (lines 538-550) are the same loop on two element
  types: \<^verbatim>\<open>for i, j := 0, len(s)-1; i < j; i, j = i+1, j-1 { s[i], s[j] = s[j], s[i] }\<close>.
\<close>

function Reverse_loop :: "'a list \<Rightarrow> int \<Rightarrow> int \<Rightarrow> 'a list" where
  "Reverse_loop s i j =
     (if i < j then Reverse_loop (s[nat i := s ! nat j, nat j := s ! nat i]) (i + 1) (j - 1)
      else s)"
  by pat_completeness auto
termination
  by (relation "measure (\<lambda>(s, i, j). nat (j - i))") auto

declare Reverse_loop.simps [simp del]

definition ReverseStrings :: "string list \<Rightarrow> string list" where
  "ReverseStrings s = Reverse_loop s 0 (int (length s) - 1)"

definition ReverseFloats :: "'f list \<Rightarrow> 'f list" where
  "ReverseFloats s = Reverse_loop s 0 (int (length s) - 1)"

subsection \<open>DrawCountryBarChart\<close>

text \<open>
  The state of the loops of the branch \<^verbatim>\<open>country == "all"\<close>: \<^verbatim>\<open>labels\<close>, \<^verbatim>\<open>cMap\<close>,
  \<^verbatim>\<open>dMap\<close>, \<^verbatim>\<open>rMap\<close>.
\<close>

type_synonym 'f sums = "string list \<times> (string \<rightharpoonup> 'f) \<times> (string \<rightharpoonup> 'f) \<times> (string \<rightharpoonup> 'f)"

text \<open>
  Lines 348-353. Line 353 reads \<^verbatim>\<open>dMap\<close>, after line 352 has stored into it:
  \<^verbatim>\<open>rMap[countryItem[i].Date] = dMap[countryItem[i].Date] + float64(countryItem[i].Recovered)\<close>.
\<close>

definition bar_body :: "'f float64_ops \<Rightarrow> int \<Rightarrow> DayItem \<Rightarrow> 'f sums \<Rightarrow> 'f sums" where
  "bar_body F idx it st =
     (case st of (labels, cMap, dMap, rMap) \<Rightarrow>
        (let labels' = (if idx = 0 then labels @ [Date it] else labels);
             cMap' = cMap(Date it \<mapsto> add64 F (getf F cMap (Date it)) (float64 F (Confirmed it)));
             dMap' = dMap(Date it \<mapsto> add64 F (getf F dMap (Date it)) (float64 F (Deaths it)));
             rMap' = rMap(Date it \<mapsto> add64 F (getf F dMap' (Date it)) (float64 F (Recovered it)))
         in (labels', cMap', dMap', rMap')))"

text \<open>Lines 344-359: the loop over \<^verbatim>\<open>AllValues\<close>, counting the countries in \<^verbatim>\<open>index\<close>.\<close>

fun bar_all ::
  "'f float64_ops \<Rightarrow> int \<Rightarrow> (string \<times> DayItem list) list \<Rightarrow> int \<Rightarrow> 'f sums \<Rightarrow> 'f sums" where
  "bar_all F mx [] idx st = st"
| "bar_all F mx ((k, countryItem) # rest) idx st =
     bar_all F mx rest (idx + 1)
       (lastDays_loop (bar_body F idx) mx countryItem (int (length countryItem) - 1) 0 st)"

text \<open>Lines 370-373: the body of the loop over one country's records.\<close>

definition bar_country_body ::
  "'f float64_ops \<Rightarrow> DayItem \<Rightarrow> string list \<times> 'f list \<times> 'f list \<times> 'f list
     \<Rightarrow> string list \<times> 'f list \<times> 'f list \<times> 'f list" where
  "bar_country_body F it st =
     (case st of (labels, cData, dData, rData) \<Rightarrow>
        (labels @ [Date it], cData @ [float64 F (Confirmed it)],
         dData @ [float64 F (Deaths it)], rData @ [float64 F (Recovered it)]))"

text \<open>
  \<^verbatim>\<open>DrawCountryBarChart(country, max)\<close> after \<^verbatim>\<open>FetchData\<close> returned nil, up to the
  hand-over to the widgets: the labels and the three series of the bar charts, or the
  failure. \<open>es\<close> is the order in which the loop of line 344 visits \<^verbatim>\<open>AllValues\<close>.
\<close>

definition DrawCountryBarChart ::
  "'f float64_ops \<Rightarrow> globals \<Rightarrow> (string \<times> DayItem list) list \<Rightarrow> string \<Rightarrow> int
     \<Rightarrow> failure + string list \<times> 'f list \<times> 'f list \<times> 'f list" where
  "DrawCountryBarChart F g es country mx =
     (if country = ''all'' then
        (case bar_all F mx es 0 ([], Map.empty, Map.empty, Map.empty) of
           (labels, cMap, dMap, rMap) \<Rightarrow>
             Inr (ReverseStrings labels,
                  ReverseFloats (map (getf F cMap) labels),
                  ReverseFloats (map (getf F dMap) labels),
                  ReverseFloats (map (getf F rMap) labels)))
      else (case AllValues g country of
              Some countryItem \<Rightarrow>
                (case lastDays_loop (bar_country_body F) mx countryItem
                        (int (length countryItem) - 1) 0 ([], [], [], []) of
                   (labels, cData, dData, rData) \<Rightarrow>
                     Inr (ReverseStrings labels, ReverseFloats cData,
                          ReverseFloats dData, ReverseFloats rData))
            | None \<Rightarrow> Inl CountryNotFound))"

subsection \<open>DrawCountryLineChart\<close>

text \<open>
  Lines 465-470. Here the third map is read from itself:
  \<^verbatim>\<open>rMap[countryItem[i].Date] = rMap[countryItem[i].Date] + float64(countryItem[i].Recovered)\<close>.
\<close>

definition line_body :: "'f float64_ops \<Rightarrow> int \<Rightarrow> DayItem \<Rightarrow> 'f sums \<Rightarrow> 'f sums" where
  "line_body F idx it st =
     (case st of (labels, cMap, dMap, rMap) \<Rightarrow>
        (let labels' = (if idx = 0 then labels @ [Date it] else labels);
             cMap' = cMap(Date it \<mapsto> add64 F (getf F cMap (Date it)) (float64 F (Confirmed it)));
             dMap' = dMap(Date it \<mapsto> add64 F (getf F dMap (Date it)) (float64 F (Deaths it)));
             rMap' = rMap(Date it \<mapsto> add64 F (getf F rMap (Date it)) (float64 F (Recovered it)))
         in (labels', cMap', dMap', rMap')))"

text \<open>Lines 461-476.\<close>

fun line_all ::
  "'f float64_ops \<Rightarrow> int \<Rightarrow> (string \<times> DayItem list) list \<Rightarrow> int \<Rightarrow> 'f sums \<Rightarrow> 'f sums" where
  "line_all F mx [] idx st = st"
| "line_all F mx ((k, countryItem) # rest) idx st =
     line_all F mx rest (idx + 1)
       (lastDays_loop (line_body F idx) mx countryItem (int (length countryItem) - 1) 0 st)"

text \<open>Lines 487-489: the three series \<^verbatim>\<open>plotChart.Data[0..2]\<close>.\<close>

definition line_country_body ::
  "'f float64_ops \<Rightarrow> DayItem \<Rightarrow> 'f list \<times> 'f list \<times> 'f list \<Rightarrow> 'f list \<times> 'f list \<times> 'f list" where
  "line_country_body F it st =
     (case st of (d0, d1, d2) \<Rightarrow>
        (d0 @ [float64 F (Confirmed it)], d1 @ [float64 F (Deaths it)],
         d2 @ [float64 F (Recovered it)]))"

text \<open>
  \<^verbatim>\<open>DrawCountryLineChart(country, max)\<close> after \<^verbatim>\<open>FetchData\<close> returned nil, up to the
  hand-over to the widget: \<^verbatim>\<open>plotChart.Data[0]\<close>, \<^verbatim>\<open>[1]\<close> and \<^verbatim>\<open>[2]\<close>, or the failure.
\<close>

definition DrawCountryLineChart ::
  "'f float64_ops \<Rightarrow> globals \<Rightarrow> (string \<times> DayItem list) list \<Rightarrow> string \<Rightarrow> int
     \<Rightarrow> failure + 'f list \<times> 'f list \<times> 'f list" where
  "DrawCountryLineChart F g es country mx =
     (if country = ''all'' then
        (case line_all F mx es 0 ([], Map.empty, Map.empty, Map.empty) of
           (labels, cMap, dMap, rMap) \<Rightarrow>
             Inr (ReverseFloats (map (getf F cMap) labels),
                  ReverseFloats (map (getf F dMap) labels),
                  ReverseFloats (map (getf F rMap) labels)))
      else (case AllValues g country of
              Some countryItem \<Rightarrow>
                (case lastDays_loop (line_country_body F) mx countryItem
                        (int (length countryItem) - 1) 0 ([], [], []) of
                   (d0, d1, d2) \<Rightarrow> Inr (ReverseFloats d0, ReverseFloats d1, ReverseFloats d2))
            | None \<Rightarrow> Inl CountryNotFound))"

section \<open>FetchData\<close>

text \<open>
  \<^verbatim>\<open>FetchData(false)\<close> from line 209 on, with the response body \<^verbatim>\<open>arrayData\<close> read. The
  body is walked by \<^verbatim>\<open>ObjectEach\<close> and \<^verbatim>\<open>ArrayEach\<close> of the package
  \<^verbatim>\<open>github.com/buger/jsonparser\<close> and its pieces are parsed by \<^verbatim>\<open>json.Unmarshal\<close> of the
  standard library. The code of neither is part of this repository: they are modelled by
  their documented behaviour on a well-formed JSON text, and the text by what the walk
  hands to the callbacks of lines 209 and 212.
\<close>

text \<open>
  A JSON value. Of a number, \<^verbatim>\<open>json.Unmarshal\<close> stores into an \<^verbatim>\<open>int\<close> only an integer
  literal (no fraction, no exponent) in the range of the type.
\<close>

datatype jnumber = IntLit int | OtherNumber

datatype json =
    JNull
  | JBool bool
  | JNumber jnumber
  | JString string
  | JArray "json list"
  | JObject "(string \<times> json) list"

text \<open>
  The bytes \<^verbatim>\<open>arrValue\<close> which \<^verbatim>\<open>ArrayEach\<close> hands to the callback of line 212 for one
  element of a country's array: the text of a JSON value, or not a JSON text.
\<close>

datatype arrValue = NotJSON | JSON json

text \<open>
  The response body: a JSON object, given by its members in the order of the text (the
  key and the elements of its array), or a JSON text of another top-level structure (an
  array, a string, a number, ...).
\<close>

datatype raw = NotObject | Object "(string \<times> arrValue list) list"

text \<open>\<^verbatim>\<open>var dayItem DayItem\<close>: the zero value of the struct.\<close>

definition zeroDayItem :: DayItem where
  "zeroDayItem = \<lparr>Date = [], Confirmed = 0, Deaths = 0, Recovered = 0\<rparr>"

text \<open>
  \<^verbatim>\<open>json.Unmarshal\<close> finds the field of a key by the names of the struct tags
  (\<^verbatim>\<open>date\<close>, \<^verbatim>\<open>confirmed\<close>, \<^verbatim>\<open>deaths\<close>, \<^verbatim>\<open>recovered\<close>), under Unicode case folding.
  A key is a string of bytes in UTF-8. The characters that fold to a letter of the four
  names are the letter in either case and, for \<^verbatim>\<open>s\<close>, the long s U+017F, which is the two
  bytes C5 BF (the Kelvin sign folds to \<^verbatim>\<open>k\<close>, a letter none of the names has).
\<close>

datatype field = DateField | ConfirmedField | DeathsField | RecoveredField

definition to_lower :: "char \<Rightarrow> char" where
  "to_lower c =
     (case map_of (zip ''ABCDEFGHIJKLMNOPQRSTUVWXYZ'' ''abcdefghijklmnopqrstuvwxyz'') c of
        None \<Rightarrow> c
      | Some l \<Rightarrow> l)"

fun foldKey :: "string \<Rightarrow> string" where
  "foldKey [] = []"
| "foldKey [a] = [to_lower a]"
| "foldKey (a # b # rest) =
     (if a = CHR 0xC5 \<and> b = CHR 0xBF then CHR ''s'' # foldKey rest
      else to_lower a # foldKey (b # rest))"

definition fieldOf :: "string \<Rightarrow> field option" where
  "fieldOf key =
     (if foldKey key = ''date'' then Some DateField
      else if foldKey key = ''confirmed'' then Some ConfirmedField
      else if foldKey key = ''deaths'' then Some DeathsField
      else if foldKey key = ''recovered'' then Some RecoveredField
      else None)"

text \<open>
  Storing a JSON value into a field of type \<^verbatim>\<open>string\<close> or \<^verbatim>\<open>int\<close>: whether it fails, and
  the field afterwards. \<^verbatim>\<open>null\<close> changes nothing and is no error; a value that does not
  fit the type (or a number out of range) is an error and leaves the field as it was.
\<close>

definition storeString :: "json \<Rightarrow> string \<Rightarrow> bool \<times> string" where
  "storeString v old =
     (case v of JString s \<Rightarrow> (False, s) | JNull \<Rightarrow> (False, old) | _ \<Rightarrow> (True, old))"

definition storeInt :: "json \<Rightarrow> goint \<Rightarrow> bool \<times> goint" where
  "storeInt v old =
     (case v of
        JNumber (IntLit n) \<Rightarrow>
          (if - (2 ^ 63) \<le> n \<and> n < 2 ^ 63 then (False, word_of_int n) else (True, old))
      | JNumber OtherNumber \<Rightarrow> (True, old)
      | JNull \<Rightarrow> (False, old)
      | _ \<Rightarrow> (True, old))"

text \<open>
  One member of a JSON object stored into the struct. A key that names no field is passed
  over. After an error the decoding goes on with the next member, and the error is
  reported at the end.
\<close>

definition storeMember :: "string \<times> json \<Rightarrow> bool \<times> DayItem \<Rightarrow> bool \<times> DayItem" where
  "storeMember kv st =
     (case kv of (key, v) \<Rightarrow>
      (case st of (err, d) \<Rightarrow>
        (case fieldOf key of
           None \<Rightarrow> (err, d)
         | Some DateField \<Rightarrow>
             (case storeString v (Date d) of (e, s) \<Rightarrow> (err \<or> e, d\<lparr>Date := s\<rparr>))
         | Some ConfirmedField \<Rightarrow>
             (case storeInt v (Confirmed d) of (e, n) \<Rightarrow> (err \<or> e, d\<lparr>Confirmed := n\<rparr>))
         | Some DeathsField \<Rightarrow>
             (case storeInt v (Deaths d) of (e, n) \<Rightarrow> (err \<or> e, d\<lparr>Deaths := n\<rparr>))
         | Some RecoveredField \<Rightarrow>
             (case storeInt v (Recovered d) of (e, n) \<Rightarrow> (err \<or> e, d\<lparr>Recovered := n\<rparr>)))))"

text \<open>
  \<^verbatim>\<open>err := json.Unmarshal(arrValue, &dayItem)\<close>: whether \<^verbatim>\<open>err != nil\<close>, and \<^verbatim>\<open>dayItem\<close>
  afterwards. Bytes that are no JSON text, and a JSON value that is neither an object nor
  \<^verbatim>\<open>null\<close>, are an error and leave the struct as it was.
\<close>

definition Unmarshal :: "arrValue \<Rightarrow> DayItem \<Rightarrow> bool \<times> DayItem" where
  "Unmarshal arrValue dayItem =
     (case arrValue of
        NotJSON \<Rightarrow> (True, dayItem)
      | JSON JNull \<Rightarrow> (False, dayItem)
      | JSON (JObject members) \<Rightarrow> fold storeMember members (False, dayItem)
      | JSON _ \<Rightarrow> (True, dayItem))"

text \<open>
  Lines 212-218: the callback of \<^verbatim>\<open>ArrayEach\<close>, called for one element after the other.
  The error of \<^verbatim>\<open>json.Unmarshal\<close> is printed to the log; \<^verbatim>\<open>dayItem\<close> is appended either way.
\<close>

fun ArrayEach :: "arrValue list \<Rightarrow> DayItem list \<Rightarrow> DayItem list" where
  "ArrayEach [] countryItems = countryItems"
| "ArrayEach (arrValue # rest) countryItems =
     ArrayEach rest (countryItems @ [snd (Unmarshal arrValue zeroDayItem)])"

text \<open>
  Lines 209-221: the callback of \<^verbatim>\<open>ObjectEach\<close>, called for one member after the other; it
  always returns nil.
\<close>

fun ObjectEach_members ::
  "(string \<times> arrValue list) list \<Rightarrow> (string \<rightharpoonup> DayItem list) \<Rightarrow> (string \<rightharpoonup> DayItem list)" where
  "ObjectEach_members [] av = av"
| "ObjectEach_members ((key, v) # rest) av =
     ObjectEach_members rest (av(key \<mapsto> ArrayEach v []))"

text \<open>
  \<^verbatim>\<open>err = jsonparser.ObjectEach(arrayData, ...)\<close>: \<^verbatim>\<open>AllValues\<close> afterwards and \<^verbatim>\<open>err\<close>. On
  a text whose first token is not the opening brace of an object, \<^verbatim>\<open>ObjectEach\<close> returns
  \<^verbatim>\<open>MalformedObjectError\<close> and calls nothing.
\<close>

definition ObjectEach ::
  "raw \<Rightarrow> (string \<rightharpoonup> DayItem list) \<Rightarrow> (string \<rightharpoonup> DayItem list) \<times> failure option" where
  "ObjectEach arrayData av =
     (case arrayData of
        NotObject \<Rightarrow> (av, Some MalformedObjectError)
      | Object members \<Rightarrow> (ObjectEach_members members av, None))"

text \<open>Lines 222-224.\<close>

fun appendNames :: "(string \<times> DayItem list) list \<Rightarrow> string list \<Rightarrow> string list" where
  "appendNames [] names = names"
| "appendNames ((k, v) # rest) names = appendNames rest (names @ [k])"

text \<open>
  Line 225, \<^verbatim>\<open>sort.Strings\<close>: the strings in increasing order, compared byte by byte. A
  list has one such arrangement, whatever the algorithm.
\<close>

definition sortStrings :: "string list \<Rightarrow> string list" where
  "sortStrings names = sort names"

text \<open>Lines 227-229; \<^verbatim>\<open>v[len(v)-1]\<close> panics on an empty series.\<close>

fun appendPairs :: "(string \<times> DayItem list) list \<Rightarrow> PairList \<Rightarrow> failure + PairList" where
  "appendPairs [] pairs = Inr pairs"
| "appendPairs ((c, v) # rest) pairs =
     (case index v (int (length v) - 1) of
        Inl e \<Rightarrow> Inl e
      | Inr lItem \<Rightarrow> appendPairs rest (pairs @ [\<lparr>Key = c, Value = Confirmed lItem\<rparr>]))"

text \<open>Line 41: \<^verbatim>\<open>func (p PairList) Less(i, j int) bool { return p[i].Value > p[j].Value }\<close>\<close>

definition Less :: "PairList \<Rightarrow> nat \<Rightarrow> nat \<Rightarrow> bool" where
  "Less p i j = (sint (Value (p ! j)) < sint (Value (p ! i)))"

text \<open>
  Line 230, \<^verbatim>\<open>sort.Sort\<close>: the library's routine is a parameter \<open>sortSort\<close> of the model.
  Its contract: it permutes the slice so that no element is \<^verbatim>\<open>Less\<close> than one before
  it; the sort is not stable, so the order of elements that compare equal is open.
\<close>

definition sort_contract :: "(PairList \<Rightarrow> PairList) \<Rightarrow> bool" where
  "sort_contract sortSort =
     (\<forall>p. mset (sortSort p) = mset p \<and>
          (\<forall>i j. i < j \<and> j < length p \<longrightarrow> \<not> Less (sortSort p) j i))"

text \<open>One routine that keeps the contract: insertion by descending value.\<close>

definition insertionSort :: "PairList \<Rightarrow> PairList" where
  "insertionSort p = sort_key (\<lambda>x. - sint (Value x)) p"

text \<open>
  \<open>es1\<close> and \<open>es2\<close> are the orders in which the loops of lines 222 and 227 visit
  \<^verbatim>\<open>AllValues\<close>. The function returns \<^verbatim>\<open>err\<close> at the end, after both loops: the result is
  the panic of line 228, else the error of \<^verbatim>\<open>ObjectEach\<close>, else the globals.
\<close>

definition FetchData ::
  "(PairList \<Rightarrow> PairList) \<Rightarrow> raw \<Rightarrow> (string \<times> DayItem list) list \<Rightarrow> (string \<times> DayItem list) list
     \<Rightarrow> globals \<Rightarrow> failure + globals" where
  "FetchData sortSort arrayData es1 es2 g =
     (case ObjectEach arrayData (AllValues g) of
        (av, err) \<Rightarrow>
          (case appendPairs es2 (ValueSortedCountries g) of
             Inl e \<Rightarrow> Inl e
           | Inr pairs \<Rightarrow>
               (case err of
                  Some e \<Rightarrow> Inl e
                | None \<Rightarrow>
                    Inr \<lparr>AllValues = av,
                         NameSortedCountries = sortStrings (appendNames es1 (NameSortedCountries g)),
                         ValueSortedCountries = sortSort pairs\<rparr>)))"

section \<open>Notions of the specification\<close>

text \<open>The latest record of a country: the last element of its series.\<close>

definition latest :: "(string \<rightharpoonup> DayItem list) \<Rightarrow> string \<Rightarrow> DayItem" where
  "latest m k = last (the (m k))"

text \<open>An integer in the range of Go's \<^verbatim>\<open>int\<close>.\<close>

definition fits_int64 :: "int \<Rightarrow> bool" where
  "fits_int64 n = (- (2 ^ 63) \<le> n \<and> n < 2 ^ 63)"

text \<open>A record as the data model has it, with three non-negative counts.\<close>

definition nonneg :: "DayItem \<Rightarrow> bool" where
  "nonneg d = (0 \<le> sint (Confirmed d) \<and> 0 \<le> sint (Deaths d) \<and> 0 \<le> sint (Recovered d))"

text \<open>
  The records of a series that a chart for \<^verbatim>\<open>max\<close> days uses, oldest first: the last
  \<^verbatim>\<open>max\<close> records, and the whole series when \<^verbatim>\<open>max\<close> is below 1 (the counter \<^verbatim>\<open>j\<close> then
  never equals \<^verbatim>\<open>max\<close>).
\<close>

definition window :: "int \<Rightarrow> DayItem list \<Rightarrow> DayItem list" where
  "window mx s = (if 1 \<le> mx then drop (length s - nat mx) s else s)"

text \<open>
  The records which the loops of the branch \<^verbatim>\<open>country == "all"\<close> visit, in the order of
  the visit: country after country as the map is ranged over, and of each country its
  window, newest record first.
\<close>

definition visited :: "int \<Rightarrow> (string \<times> DayItem list) list \<Rightarrow> DayItem list" where
  "visited mx es = concat (map (\<lambda>e. rev (window mx (snd e))) es)"

text \<open>The \<^verbatim>\<open>float64\<close> sum of a list, added up from \<^verbatim>\<open>0.0\<close> in the order of the list.\<close>

definition sum64 :: "'f float64_ops \<Rightarrow> 'f list \<Rightarrow> 'f" where
  "sum64 F xs = foldl (add64 F) (zero64 F) xs"

text \<open>
  The total of one count for one date: the sum of the field over all visited records of
  that date.
\<close>

definition date_total ::
  "'f float64_ops \<Rightarrow> (DayItem \<Rightarrow> goint) \<Rightarrow> int \<Rightarrow> (string \<times> DayItem list) list \<Rightarrow> string \<Rightarrow> 'f" where
  "date_total F fld mx es d =
     sum64 F (map (\<lambda>r. float64 F (fld r)) (filter (\<lambda>r. Date r = d) (visited mx es)))"

text \<open>The series of the country that the loop over the map visits first.\<close>

definition first_series :: "(string \<times> DayItem list) list \<Rightarrow> DayItem list" where
  "first_series es = (case es of [] \<Rightarrow> [] | e # rest \<Rightarrow> snd e)"

text \<open>
  The assignment \<^verbatim>\<open>m[it.Date] = m[it.Date] + float64(it.Field)\<close> of lines 351, 352, 468, 469
  and 470, for one of the three fields.
\<close>

definition accumulate ::
  "'f float64_ops \<Rightarrow> (DayItem \<Rightarrow> goint) \<Rightarrow> DayItem \<Rightarrow> (string \<rightharpoonup> 'f) \<Rightarrow> (string \<rightharpoonup> 'f)" where
  "accumulate F fld it m = m(Date it \<mapsto> add64 F (getf F m (Date it)) (float64 F (fld it)))"

text \<open>
  What a JSON value holds for a field of type \<^verbatim>\<open>string\<close> and for a field of type \<^verbatim>\<open>int\<close>:
  a string, and an integer literal in the range of the type. Every other value holds
  nothing for the field.
\<close>

definition stringOf :: "json \<Rightarrow> string option" where
  "stringOf v = (case v of JString s \<Rightarrow> Some s | _ \<Rightarrow> None)"

definition intOf :: "json \<Rightarrow> goint option" where
  "intOf v =
     (case v of
        JNumber (IntLit n) \<Rightarrow> (if fits_int64 n then Some (word_of_int n) else None)
      | _ \<Rightarrow> None)"

text \<open>
  The values which the members of an object hold for one field, in the order of the
  members: of each member whose key names the field, the value if it parses.
\<close>

definition memberValues :: "field \<Rightarrow> (json \<Rightarrow> 'a option) \<Rightarrow> (string \<times> json) list \<Rightarrow> 'a list" where
  "memberValues f parse ms =
     List.map_filter (\<lambda>kv. if fieldOf (fst kv) = Some f then parse (snd kv) else None) ms"

text \<open>
  The record of an element, as the amended claim C10 words it: the zero-valued record
  when the element is not a JSON object; for an object, each field holds the value of
  the last member that names the field and parses, and is zero-valued when there is no
  such member. A member that fails to parse so leaves its field to the members before
  it, and takes nothing from the other fields.
\<close>

definition recordOf :: "arrValue \<Rightarrow> DayItem" where
  "recordOf a =
     (case a of
        JSON (JObject ms) \<Rightarrow>
          \<lparr>Date = last ([] # memberValues DateField stringOf ms),
           Confirmed = last (0 # memberValues ConfirmedField intOf ms),
           Deaths = last (0 # memberValues DeathsField intOf ms),
           Recovered = last (0 # memberValues RecoveredField intOf ms)\<rparr>
      | _ \<Rightarrow> zeroDayItem)"

text \<open>
  An element that fails field-level parsing: bytes that are no JSON text, a JSON value
  that is neither an object nor \<^verbatim>\<open>null\<close>, and an object with a member that names a field
  and whose value is neither \<^verbatim>\<open>null\<close> nor a value for the field.
\<close>

definition memberFails :: "string \<times> json \<Rightarrow> bool" where
  "memberFails kv =
     (case fieldOf (fst kv) of
        None \<Rightarrow> False
      | Some DateField \<Rightarrow> snd kv \<noteq> JNull \<and> stringOf (snd kv) = None
      | Some _ \<Rightarrow> snd kv \<noteq> JNull \<and> intOf (snd kv) = None)"

definition failsToParse :: "arrValue \<Rightarrow> bool" where
  "failsToParse a =
     (case a of
        NotJSON \<Rightarrow> True
      | JSON JNull \<Rightarrow> False
      | JSON (JObject ms) \<Rightarrow> list_ex memberFails ms
      | JSON _ \<Rightarrow> True)"

section \<open>An example\<close>

text \<open>
  A response body with two countries of one day each, the series it decodes to, and the
  globals \<^verbatim>\<open>FetchData\<close> leaves.
\<close>

definition series_A :: "DayItem list" where
  "series_A = [\<lparr>Date = ''2020-1-22'', Confirmed = 5, Deaths = 1, Recovered = 2\<rparr>]"

definition series_B :: "DayItem list" where
  "series_B = [\<lparr>Date = ''2020-1-22'', Confirmed = 10, Deaths = 3, Recovered = 4\<rparr>]"

definition example_body :: raw where
  "example_body =
     Object
       [(''A'', [JSON (JObject [(''date'', JString ''2020-1-22''),
                                (''confirmed'', JNumber (IntLit 5)),
                                (''deaths'', JNumber (IntLit 1)),
                                (''recovered'', JNumber (IntLit 2))])]),
        (''B'', [JSON (JObject [(''date'', JString ''2020-1-22''),
                                (''confirmed'', JNumber (IntLit 10)),
                                (''deaths'', JNumber (IntLit 3)),
                                (''recovered'', JNumber (IntLit 4))])])]"

definition example_globals :: globals where
  "example_globals =
     \<lparr>AllValues = [''A'' \<mapsto> series_A, ''B'' \<mapsto> series_B],
      NameSortedCountries = [''A'', ''B''],
      ValueSortedCountries = [\<lparr>Key = ''B'', Value = 10\<rparr>, \<lparr>Key = ''A'', Value = 5\<rparr>]\<rparr>"

section \<open>Properties\<close>

subsection \<open>Slices, maps and 64-bit sums\<close>

lemma index_last: "s \<noteq> [] \<Longrightarrow> index s (int (length s) - 1) = Inr (last s)"
  by (cases s rule: rev_cases) (auto simp: index_def nth_append)

lemma PrintSummary_loop_sum:
  "\<forall>(k, s) \<in> set es. s \<noteq> [] \<Longrightarrow>
   PrintSummary_loop es (c, d, r) =
     Inr (c + sum_list (map (\<lambda>(k, s). Confirmed (last s)) es),
          d + sum_list (map (\<lambda>(k, s). Deaths (last s)) es),
          r + sum_list (map (\<lambda>(k, s). Recovered (last s)) es))"
proof (induction es arbitrary: c d r)
  case Nil
  then show ?case by simp
next
  case (Cons e es)
  obtain k s where e: "e = (k, s)" by (cases e)
  from Cons.prems e have ne: "s \<noteq> []" by simp
  from Cons.prems have rest: "\<forall>(k, s) \<in> set es. s \<noteq> []" by simp
  show ?case
    by (simp add: e index_last [OF ne] Cons.IH [OF rest] add.assoc)
qed

lemma range_order_sum:
  fixes f :: "DayItem list \<Rightarrow> 'b::comm_monoid_add"
  assumes "range_order m es"
  shows "sum_list (map (\<lambda>(k, s). f s) es) = (\<Sum>k\<in>dom m. f (the (m k)))"
proof -
  from assms have d: "distinct (map fst es)" and m: "map_of es = m"
    by (simp_all add: range_order_def)
  from d have de: "distinct es" by (rule distinct_map [THEN iffD1, THEN conjunct1])
  have inj: "inj_on fst (set es)" using d by (simp add: distinct_map)
  have "sum_list (map (\<lambda>(k, s). f s) es) = (\<Sum>e\<in>set es. (\<lambda>(k, s). f s) e)"
    using de by (simp add: sum_list_distinct_conv_sum_set)
  also have "\<dots> = (\<Sum>e\<in>set es. f (the (m (fst e))))"
  proof (rule sum.cong [OF refl])
    fix e assume "e \<in> set es"
    then have "(fst e, snd e) \<in> set es" by simp
    with d have "map_of es (fst e) = Some (snd e)" by (rule map_of_is_SomeI)
    then show "(case e of (k, s) \<Rightarrow> f s) = f (the (m (fst e)))"
      by (cases e) (simp add: m [symmetric])
  qed
  also have "\<dots> = (\<Sum>k\<in>fst ` set es. f (the (m k)))"
    using inj by (simp add: sum.reindex)
  also have "fst ` set es = dom m"
    by (simp add: m [symmetric] dom_map_of_conv_image_fst)
  finally show ?thesis .
qed

lemma sint_word_of_int_exact:
  "- (2 ^ 63) \<le> K \<Longrightarrow> K < 2 ^ 63 \<Longrightarrow> sint (word_of_int K :: goint) = K"
  by (simp add: sint_sbintrunc' signed_take_bit_int_eq_self)

lemma sint_sum_exact:
  fixes f :: "'a \<Rightarrow> goint"
  assumes "- (2 ^ 63) \<le> (\<Sum>k\<in>A. sint (f k))" and "(\<Sum>k\<in>A. sint (f k)) < 2 ^ 63"
  shows "sint (\<Sum>k\<in>A. f k) = (\<Sum>k\<in>A. sint (f k))"
proof -
  have "(\<Sum>k\<in>A. f k) = (\<Sum>k\<in>A. word_of_int (sint (f k)))" by simp
  also have "\<dots> = word_of_int (\<Sum>k\<in>A. sint (f k))" by (simp only: of_int_sum)
  finally have "sint (\<Sum>k\<in>A. f k) = sint (word_of_int (\<Sum>k\<in>A. sint (f k)) :: goint)"
    by (rule arg_cong)
  also have "\<dots> = (\<Sum>k\<in>A. sint (f k))"
    using assms by (rule sint_word_of_int_exact)
  finally show ?thesis .
qed


subsection \<open>PrintSummary: the totals\<close>

lemma range_order_nonempty:
  assumes "range_order m es" and "[] \<notin> ran m"
  shows "\<forall>(k, s) \<in> set es. s \<noteq> []"
proof -
  from assms(1) have d: "distinct (map fst es)" and m: "map_of es = m"
    by (simp_all add: range_order_def)
  { fix k s assume "(k, s) \<in> set es"
    with d have "map_of es k = Some s" by (rule map_of_is_SomeI)
    then have "s \<in> ran m" by (auto simp: m ran_def)
    with assms(2) have "s \<noteq> []" by auto }
  then show ?thesis by auto
qed

text \<open>
  Claim C6. On a dataset in which every country's series is non-empty, \<^verbatim>\<open>PrintSummary\<close>
  yields the triple whose confirmed, deaths and recovered components are each the sum,
  over all countries, of that field of the country's last record, in whatever order the
  loop visits the map. The sums are those of Go's \<^verbatim>\<open>int\<close>; where the total fits 64 bits
  it is the sum of the integers.
\<close>

theorem PrintSummary_sums_latest:
  assumes "range_order m es" and "[] \<notin> ran m"
  shows "PrintSummary es =
           Inr (\<Sum>k\<in>dom m. Confirmed (latest m k),
                \<Sum>k\<in>dom m. Deaths (latest m k),
                \<Sum>k\<in>dom m. Recovered (latest m k))
         \<and> (fits_int64 (\<Sum>k\<in>dom m. sint (Confirmed (latest m k))) \<longrightarrow>
              sint (\<Sum>k\<in>dom m. Confirmed (latest m k)) = (\<Sum>k\<in>dom m. sint (Confirmed (latest m k))))
         \<and> (fits_int64 (\<Sum>k\<in>dom m. sint (Deaths (latest m k))) \<longrightarrow>
              sint (\<Sum>k\<in>dom m. Deaths (latest m k)) = (\<Sum>k\<in>dom m. sint (Deaths (latest m k))))
         \<and> (fits_int64 (\<Sum>k\<in>dom m. sint (Recovered (latest m k))) \<longrightarrow>
              sint (\<Sum>k\<in>dom m. Recovered (latest m k)) = (\<Sum>k\<in>dom m. sint (Recovered (latest m k))))"
proof -
  have ne: "\<forall>(k, s) \<in> set es. s \<noteq> []"
    using assms by (rule range_order_nonempty)
  have "PrintSummary es =
          Inr (sum_list (map (\<lambda>(k, s). Confirmed (last s)) es),
               sum_list (map (\<lambda>(k, s). Deaths (last s)) es),
               sum_list (map (\<lambda>(k, s). Recovered (last s)) es))"
    by (simp add: PrintSummary_def PrintSummary_loop_sum [OF ne])
  then have run: "PrintSummary es =
           Inr (\<Sum>k\<in>dom m. Confirmed (latest m k),
                \<Sum>k\<in>dom m. Deaths (latest m k),
                \<Sum>k\<in>dom m. Recovered (latest m k))"
    by (simp add: range_order_sum [OF assms(1)] latest_def)
  show ?thesis
    using run by (simp add: fits_int64_def sint_sum_exact)
qed

text \<open>The example of the specification: two countries with one record each.\<close>

theorem PrintSummary_sums_latest_witness:
  "PrintSummary
     [(''A'', [\<lparr>Date = ''2020-1-22'', Confirmed = 5, Deaths = 1, Recovered = 2\<rparr>]),
      (''B'', [\<lparr>Date = ''2020-1-22'', Confirmed = 10, Deaths = 3, Recovered = 4\<rparr>])]
   = Inr (15, 4, 6)"
proof -
  let ?a = "[\<lparr>Date = ''2020-1-22'', Confirmed = 5, Deaths = 1, Recovered = 2\<rparr>]"
  let ?b = "[\<lparr>Date = ''2020-1-22'', Confirmed = 10, Deaths = 3, Recovered = 4\<rparr>]"
  let ?es = "[(''A'', ?a), (''B'', ?b)]"
  have r: "range_order (map_of ?es) ?es" by (simp add: range_order_def)
  have n: "[] \<notin> ran (map_of ?es)" by (auto simp: ran_def split: if_splits)
  have d: "dom (map_of ?es) = {''A'', ''B''}" by auto
  show ?thesis
    using PrintSummary_sums_latest [OF r n] by (simp add: d latest_def)
qed

subsection \<open>PrintCountry: the row of a country\<close>

lemma deltaRow_one: "length s = 1 \<Longrightarrow> deltaRow name s = Inl PanicIndexOutOfRange"
  by (simp add: deltaRow_def index_def)

lemma deltaRow_two:
  assumes "2 \<le> length s"
  shows "deltaRow name s =
           Inr (name, Confirmed (s ! (length s - 1)), Deaths (s ! (length s - 1)),
                Recovered (s ! (length s - 1)),
                Confirmed (s ! (length s - 1)) - Confirmed (s ! (length s - 2)),
                Deaths (s ! (length s - 1)) - Deaths (s ! (length s - 2)),
                Recovered (s ! (length s - 1)) - Recovered (s ! (length s - 2)))"
proof -
  have a: "nat (int (length s) - 1) = length s - 1" and b: "nat (int (length s) - 2) = length s - 2"
    by simp_all
  from assms have "s \<noteq> []" by auto
  with assms show ?thesis
    by (simp add: deltaRow_def index_def a b)
qed

lemma sint_diff_exact:
  fixes a b :: goint
  assumes "0 \<le> sint a" and "0 \<le> sint b"
  shows "sint (a - b) = sint a - sint b"
proof -
  have ua: "sint a < 2 ^ 63" using sint_lt [of a] by simp
  have ub: "sint b < 2 ^ 63" using sint_lt [of b] by simp
  have "a - b = word_of_int (sint a - sint b)" by simp
  then have "sint (a - b) = sint (word_of_int (sint a - sint b) :: goint)" by (rule arg_cong)
  also have "\<dots> = sint a - sint b"
    using assms ua ub by (intro sint_word_of_int_exact) simp_all
  finally show ?thesis .
qed

text \<open>
  Claim C2, as the code has it. For a country of the dataset (a name other than the
  selector \<^verbatim>\<open>all\<close>): if its series has exactly one record, \<^verbatim>\<open>PrintCountry\<close> does not
  return an error value, it panics on the index \<^verbatim>\<open>len(countryItem)-2\<close>; if the series has
  two records or more, the row holds the last record's counts and the differences
  between the last record and the one before it, for each of the three counts. The
  differences are those of Go's \<^verbatim>\<open>int\<close>, and on non-negative counts they are the
  differences of the integers.
\<close>

theorem PrintCountry_delta:
  assumes "country \<noteq> ''all''" and "AllValues g country = Some s"
  shows "(length s = 1 \<longrightarrow> PrintCountry g country mx = Inl PanicIndexOutOfRange)
       \<and> (2 \<le> length s \<longrightarrow>
            PrintCountry g country mx =
              Inr [(country,
                    Confirmed (s ! (length s - 1)), Deaths (s ! (length s - 1)),
                    Recovered (s ! (length s - 1)),
                    Confirmed (s ! (length s - 1)) - Confirmed (s ! (length s - 2)),
                    Deaths (s ! (length s - 1)) - Deaths (s ! (length s - 2)),
                    Recovered (s ! (length s - 1)) - Recovered (s ! (length s - 2)))])
       \<and> (nonneg (s ! (length s - 1)) \<and> nonneg (s ! (length s - 2)) \<longrightarrow>
            sint (Confirmed (s ! (length s - 1)) - Confirmed (s ! (length s - 2)))
              = sint (Confirmed (s ! (length s - 1))) - sint (Confirmed (s ! (length s - 2)))
          \<and> sint (Deaths (s ! (length s - 1)) - Deaths (s ! (length s - 2)))
              = sint (Deaths (s ! (length s - 1))) - sint (Deaths (s ! (length s - 2)))
          \<and> sint (Recovered (s ! (length s - 1)) - Recovered (s ! (length s - 2)))
              = sint (Recovered (s ! (length s - 1))) - sint (Recovered (s ! (length s - 2))))"
proof (intro conjI impI)
  assume "length s = 1"
  then show "PrintCountry g country mx = Inl PanicIndexOutOfRange"
    using assms by (simp add: PrintCountry_def deltaRow_one)
next
  assume "2 \<le> length s"
  then show "PrintCountry g country mx =
              Inr [(country,
                    Confirmed (s ! (length s - 1)), Deaths (s ! (length s - 1)),
                    Recovered (s ! (length s - 1)),
                    Confirmed (s ! (length s - 1)) - Confirmed (s ! (length s - 2)),
                    Deaths (s ! (length s - 1)) - Deaths (s ! (length s - 2)),
                    Recovered (s ! (length s - 1)) - Recovered (s ! (length s - 2)))]"
    using assms by (simp add: PrintCountry_def deltaRow_two)
qed (simp_all add: nonneg_def sint_diff_exact)

text \<open>A series of two records: the row and its differences.\<close>

theorem PrintCountry_delta_witness:
  "PrintCountry
     \<lparr>AllValues = [''A'' \<mapsto> [\<lparr>Date = ''2020-1-22'', Confirmed = 5, Deaths = 1, Recovered = 2\<rparr>,
                             \<lparr>Date = ''2020-1-23'', Confirmed = 10, Deaths = 3, Recovered = 4\<rparr>]],
      NameSortedCountries = [''A''],
      ValueSortedCountries = [\<lparr>Key = ''A'', Value = 10\<rparr>]\<rparr> ''A'' 100
   = Inr [(''A'', 10, 3, 4, 5, 2, 2)]"
proof -
  let ?s = "[\<lparr>Date = ''2020-1-22'', Confirmed = 5, Deaths = 1, Recovered = 2\<rparr>,
             \<lparr>Date = ''2020-1-23'', Confirmed = 10, Deaths = 3, Recovered = 4\<rparr>]"
  let ?g = "\<lparr>AllValues = [''A'' \<mapsto> ?s], NameSortedCountries = [''A''],
             ValueSortedCountries = [\<lparr>Key = ''A'', Value = 10\<rparr>]\<rparr>"
  have a: "''A'' \<noteq> ''all''" by simp
  have b: "AllValues ?g ''A'' = Some ?s" by simp
  show ?thesis
    using PrintCountry_delta [OF a b, of 100] by simp
qed

text \<open>
  A dataset whose only country has a single record: the query for that country and the
  query for \<^verbatim>\<open>all\<close> both end in the panic, not in an error value.
\<close>

theorem PrintCountry_single_record_panics:
  "PrintCountry
     \<lparr>AllValues = [''A'' \<mapsto> [\<lparr>Date = ''2020-1-22'', Confirmed = 5, Deaths = 1, Recovered = 2\<rparr>]],
      NameSortedCountries = [''A''],
      ValueSortedCountries = [\<lparr>Key = ''A'', Value = 5\<rparr>]\<rparr> ''A'' 100
   = Inl PanicIndexOutOfRange
   \<and> PrintCountry
     \<lparr>AllValues = [''A'' \<mapsto> [\<lparr>Date = ''2020-1-22'', Confirmed = 5, Deaths = 1, Recovered = 2\<rparr>]],
      NameSortedCountries = [''A''],
      ValueSortedCountries = [\<lparr>Key = ''A'', Value = 5\<rparr>]\<rparr> ''all'' 100
   = Inl PanicIndexOutOfRange"
  by (simp add: PrintCountry_def deltaRow_def index_def lookup_def)

subsection \<open>Unknown countries\<close>

text \<open>
  Claim C7. For a country name that is not a key of the dataset (and is not the selector
  \<^verbatim>\<open>all\<close>, which names no country), \<^verbatim>\<open>PrintCountry\<close>, \<^verbatim>\<open>DrawCountryBarChart\<close> and
  \<^verbatim>\<open>DrawCountryLineChart\<close> return the error "country not found in dataset" and
  produce no rows and no series.
\<close>

theorem unknown_country_not_found:
  assumes "country \<noteq> ''all''" and "country \<notin> dom (AllValues g)"
  shows "PrintCountry g country mx = Inl CountryNotFound
       \<and> DrawCountryBarChart F g es country mx = Inl CountryNotFound
       \<and> DrawCountryLineChart F g es country mx = Inl CountryNotFound"
  using assms
  by (auto simp: PrintCountry_def DrawCountryBarChart_def DrawCountryLineChart_def)

text \<open>The country \<^verbatim>\<open>X\<close> in a dataset that holds only \<^verbatim>\<open>A\<close>.\<close>

theorem unknown_country_not_found_witness:
  "PrintCountry
     \<lparr>AllValues = [''A'' \<mapsto> [\<lparr>Date = ''2020-1-22'', Confirmed = 5, Deaths = 1, Recovered = 2\<rparr>]],
      NameSortedCountries = [''A''],
      ValueSortedCountries = [\<lparr>Key = ''A'', Value = 5\<rparr>]\<rparr> ''X'' 10 = Inl CountryNotFound
   \<and> DrawCountryBarChart exact64
     \<lparr>AllValues = [''A'' \<mapsto> [\<lparr>Date = ''2020-1-22'', Confirmed = 5, Deaths = 1, Recovered = 2\<rparr>]],
      NameSortedCountries = [''A''],
      ValueSortedCountries = [\<lparr>Key = ''A'', Value = 5\<rparr>]\<rparr>
     [(''A'', [\<lparr>Date = ''2020-1-22'', Confirmed = 5, Deaths = 1, Recovered = 2\<rparr>])] ''X'' 10
       = Inl CountryNotFound
   \<and> DrawCountryLineChart exact64
     \<lparr>AllValues = [''A'' \<mapsto> [\<lparr>Date = ''2020-1-22'', Confirmed = 5, Deaths = 1, Recovered = 2\<rparr>]],
      NameSortedCountries = [''A''],
      ValueSortedCountries = [\<lparr>Key = ''A'', Value = 5\<rparr>]\<rparr>
     [(''A'', [\<lparr>Date = ''2020-1-22'', Confirmed = 5, Deaths = 1, Recovered = 2\<rparr>])] ''X'' 10
       = Inl CountryNotFound"
proof -
  let ?g = "\<lparr>AllValues = [''A'' \<mapsto> [\<lparr>Date = ''2020-1-22'', Confirmed = 5, Deaths = 1, Recovered = 2\<rparr>]],
      NameSortedCountries = [''A''],
      ValueSortedCountries = [\<lparr>Key = ''A'', Value = 5\<rparr>]\<rparr>"
  have a: "''X'' \<noteq> ''all''" by simp
  have b: "''X'' \<notin> dom (AllValues ?g)" by simp
  show ?thesis
    by (rule unknown_country_not_found [OF a b])
qed

subsection \<open>The two loops of the charts\<close>

lemma Reverse_loop_length: "length (Reverse_loop s i j) = length s"
  by (induction s i j rule: Reverse_loop.induct) (subst Reverse_loop.simps, simp)

lemma Reverse_loop_nth:
  "0 \<le> i \<Longrightarrow> j < int (length s) \<Longrightarrow> k < length s \<Longrightarrow>
   Reverse_loop s i j ! k =
     (if i \<le> int k \<and> int k \<le> j then s ! nat (i + j - int k) else s ! k)"
proof (induction s i j arbitrary: k rule: Reverse_loop.induct)
  case (1 s i j)
  show ?case
  proof (cases "i < j")
    case False
    then have "Reverse_loop s i j = s" by (subst Reverse_loop.simps) simp
    moreover have "i \<le> int k \<and> int k \<le> j \<Longrightarrow> nat (i + j - int k) = k"
      using False by linarith
    ultimately show ?thesis by auto
  next
    case True
    let ?s' = "s[nat i := s ! nat j, nat j := s ! nat i]"
    have step: "Reverse_loop s i j = Reverse_loop ?s' (i + 1) (j - 1)"
      using True by (subst Reverse_loop.simps) simp
    have ih: "Reverse_loop ?s' (i + 1) (j - 1) ! k =
      (if i + 1 \<le> int k \<and> int k \<le> j - 1 then ?s' ! nat (i + 1 + (j - 1) - int k) else ?s' ! k)"
      using "1.IH" [OF True, of k] "1.prems" by simp
    have ni: "nat i < length s" and nj: "nat j < length s" and nij: "nat i \<noteq> nat j"
      using True "1.prems" by auto
    show ?thesis
    proof (cases "i + 1 \<le> int k \<and> int k \<le> j - 1")
      case mid: True
      then have a: "nat (i + j - int k) \<noteq> nat i" and b: "nat (i + j - int k) \<noteq> nat j"
        using "1.prems" by auto
      show ?thesis using mid a b by (simp add: step ih)
    next
      case nomid: False
      have val: "?s' ! k = (if int k = i then s ! nat j else if int k = j then s ! nat i else s ! k)"
      proof -
        have "int k = i \<longleftrightarrow> k = nat i" "int k = j \<longleftrightarrow> k = nat j"
          using True "1.prems" by auto
        then show ?thesis using ni nj nij "1.prems" by (auto simp: nth_list_update)
      qed
      have tgt: "(if i \<le> int k \<and> int k \<le> j then s ! nat (i + j - int k) else s ! k)
               = (if int k = i then s ! nat j else if int k = j then s ! nat i else s ! k)"
        using nomid True by auto
      show ?thesis using nomid by (simp only: step ih val tgt if_False)
    qed
  qed
qed

lemma Reverse_loop_rev: "Reverse_loop s 0 (int (length s) - 1) = rev s"
proof (rule nth_equalityI)
  show "length (Reverse_loop s 0 (int (length s) - 1)) = length (rev s)"
    by (simp add: Reverse_loop_length)
next
  fix k assume "k < length (Reverse_loop s 0 (int (length s) - 1))"
  then have k: "k < length s" by (simp add: Reverse_loop_length)
  then have "nat (int (length s) - 1 - int k) = length s - Suc k" by linarith
  with k show "Reverse_loop s 0 (int (length s) - 1) ! k = rev s ! k"
    by (simp add: Reverse_loop_nth rev_nth)
qed

lemma ReverseStrings_rev: "ReverseStrings s = rev s"
  by (simp add: ReverseStrings_def Reverse_loop_rev)

lemma ReverseFloats_rev: "ReverseFloats s = rev s"
  by (simp add: ReverseFloats_def Reverse_loop_rev)

lemma lastDays_loop_fold:
  "i < int (length s) \<Longrightarrow>
   lastDays_loop body mx s i j st =
     fold body (if j < mx then take (nat (mx - j)) (rev (take (nat (i + 1)) s))
                else rev (take (nat (i + 1)) s)) st"
proof (induction body mx s i j st rule: lastDays_loop.induct)
  case (1 body mx s i j st)
  show ?case
  proof (cases "0 \<le> i")
    case False
    then show ?thesis by (subst lastDays_loop.simps) simp
  next
    case True
    with "1.prems" have lt: "nat i < length s" by simp
    have "take (nat (i + 1)) s = take (Suc (nat i)) s" using True by (simp add: nat_add_distrib)
    then have tk: "rev (take (nat (i + 1)) s) = s ! nat i # rev (take (nat i) s)"
      using lt by (simp add: take_Suc_conv_app_nth)
    have tk': "nat (i - 1 + 1) = nat i" by simp
    show ?thesis
    proof (cases "j + 1 = mx")
      case True
      then have "nat (mx - j) = Suc 0" and "j < mx" by simp_all
      with True \<open>0 \<le> i\<close> show ?thesis
        by (subst lastDays_loop.simps) (simp add: tk)
    next
      case False
      have ih: "lastDays_loop body mx s (i - 1) (j + 1) (body (s ! nat i) st) =
                fold body (if j + 1 < mx then take (nat (mx - (j + 1))) (rev (take (nat i) s))
                           else rev (take (nat i) s)) (body (s ! nat i) st)"
        using "1.IH" [OF True False] "1.prems" by (simp only: tk')
      have "j < mx \<Longrightarrow> nat (mx - j) = Suc (nat (mx - (j + 1)))" by simp
      then show ?thesis
        using True False by (subst lastDays_loop.simps) (auto simp: ih tk)
    qed
  qed
qed

lemma lastDays_loop_window:
  "lastDays_loop body mx s (int (length s) - 1) 0 st = fold body (rev (window mx s)) st"
proof -
  have "take (length s - (length s - nat mx)) (rev s) = take (nat mx) (rev s)"
    by (cases "nat mx \<le> length s") simp_all
  then have "rev (window mx s) = (if 0 < mx then take (nat mx) (rev s) else rev s)"
    by (simp add: window_def rev_drop)
  then show ?thesis
    by (simp add: lastDays_loop_fold)
qed

subsection \<open>The chart of one country\<close>

lemma fold_bar_country_body:
  "fold (bar_country_body F) rs (labels, cData, dData, rData) =
     (labels @ map Date rs, cData @ map (\<lambda>r. float64 F (Confirmed r)) rs,
      dData @ map (\<lambda>r. float64 F (Deaths r)) rs, rData @ map (\<lambda>r. float64 F (Recovered r)) rs)"
  by (induction rs arbitrary: labels cData dData rData) (simp_all add: bar_country_body_def)

lemma fold_line_country_body:
  "fold (line_country_body F) rs (d0, d1, d2) =
     (d0 @ map (\<lambda>r. float64 F (Confirmed r)) rs,
      d1 @ map (\<lambda>r. float64 F (Deaths r)) rs, d2 @ map (\<lambda>r. float64 F (Recovered r)) rs)"
  by (induction rs arbitrary: d0 d1 d2) (simp_all add: line_country_body_def)

lemma DrawCountryBarChart_country:
  assumes "country \<noteq> ''all''" and "AllValues g country = Some s"
  shows "DrawCountryBarChart F g es country mx =
           Inr (map Date (window mx s), map (\<lambda>r. float64 F (Confirmed r)) (window mx s),
                map (\<lambda>r. float64 F (Deaths r)) (window mx s),
                map (\<lambda>r. float64 F (Recovered r)) (window mx s))"
  using assms
  by (simp add: DrawCountryBarChart_def lastDays_loop_window fold_bar_country_body
      ReverseStrings_rev ReverseFloats_rev rev_map)

lemma DrawCountryLineChart_country:
  assumes "country \<noteq> ''all''" and "AllValues g country = Some s"
  shows "DrawCountryLineChart F g es country mx =
           Inr (map (\<lambda>r. float64 F (Confirmed r)) (window mx s),
                map (\<lambda>r. float64 F (Deaths r)) (window mx s),
                map (\<lambda>r. float64 F (Recovered r)) (window mx s))"
  using assms
  by (simp add: DrawCountryLineChart_def lastDays_loop_window fold_line_country_body
      ReverseFloats_rev rev_map)

text \<open>
  Claim C8. For a country of the dataset and every \<^verbatim>\<open>max\<close> of at least 1, the labels and
  the three series of \<^verbatim>\<open>DrawCountryBarChart\<close>, and the three series of
  \<^verbatim>\<open>DrawCountryLineChart\<close>, are those of the last \<open>min max (length s)\<close> records of the
  series, in the order of the series: the loop collects them newest first and the
  reversal puts them back. So where the series is ascending by date, under whatever
  order \<open>before\<close> of the dates, the output is.
\<close>

theorem windowed_series_chronological:
  assumes "country \<noteq> ''all''" and "AllValues g country = Some s" and "1 \<le> mx"
  shows "DrawCountryBarChart F g es country mx =
           Inr (map Date (drop (length s - min (nat mx) (length s)) s),
                map (\<lambda>r. float64 F (Confirmed r)) (drop (length s - min (nat mx) (length s)) s),
                map (\<lambda>r. float64 F (Deaths r)) (drop (length s - min (nat mx) (length s)) s),
                map (\<lambda>r. float64 F (Recovered r)) (drop (length s - min (nat mx) (length s)) s))
       \<and> DrawCountryLineChart F g es country mx =
           Inr (map (\<lambda>r. float64 F (Confirmed r)) (drop (length s - min (nat mx) (length s)) s),
                map (\<lambda>r. float64 F (Deaths r)) (drop (length s - min (nat mx) (length s)) s),
                map (\<lambda>r. float64 F (Recovered r)) (drop (length s - min (nat mx) (length s)) s))
       \<and> (sorted_wrt before (map Date s) \<longrightarrow>
            sorted_wrt before (map Date (drop (length s - min (nat mx) (length s)) s)))"
proof -
  have w: "window mx s = drop (length s - min (nat mx) (length s)) s"
    using assms(3) by (simp add: window_def min_def)
  have "sorted_wrt before (map Date s) \<Longrightarrow> sorted_wrt before (map Date (window mx s))"
    unfolding w by (simp flip: drop_map)
  then show ?thesis
    unfolding w [symmetric]
    by (simp add: DrawCountryBarChart_country [OF assms(1,2)]
        DrawCountryLineChart_country [OF assms(1,2)])
qed

text \<open>The last two of three days.\<close>

theorem windowed_series_chronological_witness:
  "DrawCountryBarChart exact64
     \<lparr>AllValues = [''A'' \<mapsto> [\<lparr>Date = ''2020-1-22'', Confirmed = 5, Deaths = 1, Recovered = 2\<rparr>,
                             \<lparr>Date = ''2020-1-23'', Confirmed = 10, Deaths = 3, Recovered = 4\<rparr>,
                             \<lparr>Date = ''2020-1-24'', Confirmed = 12, Deaths = 4, Recovered = 6\<rparr>]],
      NameSortedCountries = [''A''],
      ValueSortedCountries = [\<lparr>Key = ''A'', Value = 12\<rparr>]\<rparr>
     [(''A'', [\<lparr>Date = ''2020-1-22'', Confirmed = 5, Deaths = 1, Recovered = 2\<rparr>,
               \<lparr>Date = ''2020-1-23'', Confirmed = 10, Deaths = 3, Recovered = 4\<rparr>,
               \<lparr>Date = ''2020-1-24'', Confirmed = 12, Deaths = 4, Recovered = 6\<rparr>])] ''A'' 2
   = Inr ([''2020-1-23'', ''2020-1-24''], [10, 12], [3, 4], [4, 6])"
proof -
  let ?s = "[\<lparr>Date = ''2020-1-22'', Confirmed = 5, Deaths = 1, Recovered = 2\<rparr>,
             \<lparr>Date = ''2020-1-23'', Confirmed = 10, Deaths = 3, Recovered = 4\<rparr>,
             \<lparr>Date = ''2020-1-24'', Confirmed = 12, Deaths = 4, Recovered = 6\<rparr>]"
  let ?g = "\<lparr>AllValues = [''A'' \<mapsto> ?s], NameSortedCountries = [''A''],
             ValueSortedCountries = [\<lparr>Key = ''A'', Value = 12\<rparr>]\<rparr>"
  have a: "''A'' \<noteq> ''all''" by simp
  have b: "AllValues ?g ''A'' = Some ?s" by simp
  have c: "(1::int) \<le> 2" by simp
  show ?thesis
    using windowed_series_chronological [OF a b c, of exact64 "[(''A'', ?s)]"]
    by (simp add: exact64_def)
qed

subsection \<open>The chart of all countries\<close>

text \<open>One map of the three, filled record by record.\<close>

lemma getf_upd: "getf F (m(k \<mapsto> v)) d = (if d = k then v else getf F m d)"
  by (simp add: getf_def)

lemma getf_empty: "getf F Map.empty d = zero64 F"
  by (simp add: getf_def)

lemma getf_fold_add:
  "getf F (fold (accumulate F fld) rs m) d =
     foldl (add64 F) (getf F m d) (map (\<lambda>r. float64 F (fld r)) (filter (\<lambda>r. Date r = d) rs))"
  by (induction rs arbitrary: m) (simp_all add: getf_upd accumulate_def)

lemma fold_line_body:
  "fold (line_body F idx) rs (labels, cMap, dMap, rMap) =
     ((if idx = 0 then labels @ map Date rs else labels),
      fold (accumulate F Confirmed) rs cMap,
      fold (accumulate F Deaths) rs dMap,
      fold (accumulate F Recovered) rs rMap)"
  by (induction rs arbitrary: labels cMap dMap rMap) (simp_all add: line_body_def Let_def accumulate_def)

lemma fold_bar_body:
  "(case fold (bar_body F idx) rs (labels, cMap, dMap, rMap) of
      (labels', cMap', dMap', rMap') \<Rightarrow> (labels', cMap', dMap')) =
     ((if idx = 0 then labels @ map Date rs else labels),
      fold (accumulate F Confirmed) rs cMap,
      fold (accumulate F Deaths) rs dMap)"
  by (induction rs arbitrary: labels cMap dMap rMap) (simp_all add: bar_body_def Let_def accumulate_def)

lemma line_all_visited:
  "0 \<le> idx \<Longrightarrow>
   line_all F mx es idx (labels, cMap, dMap, rMap) =
     ((if idx = 0 then labels @ map Date (rev (window mx (first_series es))) else labels),
      fold (accumulate F Confirmed) (visited mx es) cMap,
      fold (accumulate F Deaths) (visited mx es) dMap,
      fold (accumulate F Recovered) (visited mx es) rMap)"
proof (induction es arbitrary: idx labels cMap dMap rMap)
  case Nil
  then show ?case by (simp add: visited_def first_series_def window_def)
next
  case (Cons e es)
  obtain k s where e: "e = (k, s)" by (cases e)
  have nz: "idx + 1 \<noteq> 0" and nn: "0 \<le> idx + 1" using Cons.prems by simp_all
  show ?case
    using nz by (simp add: e lastDays_loop_window fold_line_body Cons.IH [OF nn]
        visited_def first_series_def)
qed

lemma bar_all_visited:
  "0 \<le> idx \<Longrightarrow>
   (case bar_all F mx es idx (labels, cMap, dMap, rMap) of
      (labels', cMap', dMap', rMap') \<Rightarrow> (labels', cMap', dMap')) =
     ((if idx = 0 then labels @ map Date (rev (window mx (first_series es))) else labels),
      fold (accumulate F Confirmed) (visited mx es) cMap,
      fold (accumulate F Deaths) (visited mx es) dMap)"
proof (induction es arbitrary: idx labels cMap dMap rMap)
  case Nil
  then show ?case by (simp add: visited_def first_series_def window_def)
next
  case (Cons e es)
  obtain k s where e: "e = (k, s)" by (cases e)
  have nz: "idx + 1 \<noteq> 0" and nn: "0 \<le> idx + 1" using Cons.prems by simp_all
  obtain l1 c1 d1 r1 where st: "fold (bar_body F idx) (rev (window mx s)) (labels, cMap, dMap, rMap)
      = (l1, c1, d1, r1)"
    by (metis prod_cases4)
  have one: "(l1, c1, d1) =
     ((if idx = 0 then labels @ map Date (rev (window mx s)) else labels),
      fold (accumulate F Confirmed) (rev (window mx s)) cMap,
      fold (accumulate F Deaths) (rev (window mx s)) dMap)"
    using fold_bar_body [of F idx "rev (window mx s)" labels cMap dMap rMap] by (simp add: st)
  show ?case
    using nz one by (simp add: e lastDays_loop_window st Cons.IH [OF nn] visited_def first_series_def)
qed

lemma getf_total:
  "getf F (fold (accumulate F fld)
             (visited mx es) Map.empty) d = date_total F fld mx es d"
  by (simp add: getf_fold_add getf_empty date_total_def sum64_def)

text \<open>
  Claim C3, as the code has it. The view of all countries is aligned by the date string,
  and it has one entry per record in the window of the country that the loop over the
  map visits first (the labels are added "only once", line 349), oldest first. The
  confirmed and the deaths value of an entry, and in the line chart the recovered value
  too, are the sums of that field over all records of that date which the loops visit,
  that is over the windows of all countries. The recovered value of the bar chart is
  left open here.
\<close>

theorem all_countries_by_first_country:
  "DrawCountryLineChart F g es ''all'' mx =
     Inr (map (date_total F Confirmed mx es) (map Date (window mx (first_series es))),
          map (date_total F Deaths mx es) (map Date (window mx (first_series es))),
          map (date_total F Recovered mx es) (map Date (window mx (first_series es))))
   \<and> (\<exists>rData. DrawCountryBarChart F g es ''all'' mx =
     Inr (map Date (window mx (first_series es)),
          map (date_total F Confirmed mx es) (map Date (window mx (first_series es))),
          map (date_total F Deaths mx es) (map Date (window mx (first_series es))),
          rData))"
proof
  show "DrawCountryLineChart F g es ''all'' mx =
     Inr (map (date_total F Confirmed mx es) (map Date (window mx (first_series es))),
          map (date_total F Deaths mx es) (map Date (window mx (first_series es))),
          map (date_total F Recovered mx es) (map Date (window mx (first_series es))))"
    by (simp add: DrawCountryLineChart_def line_all_visited ReverseFloats_rev getf_total
        rev_map cong: map_cong)
next
  obtain l1 c1 d1 r1 where st: "bar_all F mx es 0 ([], Map.empty, Map.empty, Map.empty) = (l1, c1, d1, r1)"
    by (metis prod_cases4)
  have "(l1, c1, d1) =
     (map Date (rev (window mx (first_series es))),
      fold (accumulate F Confirmed) (visited mx es) Map.empty,
      fold (accumulate F Deaths) (visited mx es) Map.empty)"
    using bar_all_visited [of 0 F mx es "[]" Map.empty Map.empty Map.empty] by (simp add: st)
  then show "\<exists>rData. DrawCountryBarChart F g es ''all'' mx =
     Inr (map Date (window mx (first_series es)),
          map (date_total F Confirmed mx es) (map Date (window mx (first_series es))),
          map (date_total F Deaths mx es) (map Date (window mx (first_series es))),
          rData)"
    by (simp add: DrawCountryBarChart_def st ReverseFloats_rev ReverseStrings_rev getf_total
        rev_map cong: map_cong)
qed

text \<open>The example of the specification, in the line chart.\<close>

theorem all_countries_by_first_country_witness:
  "DrawCountryLineChart exact64
     \<lparr>AllValues = [''A'' \<mapsto> [\<lparr>Date = ''2020-1-22'', Confirmed = 1, Deaths = 1, Recovered = 1\<rparr>],
                   ''B'' \<mapsto> [\<lparr>Date = ''2020-1-22'', Confirmed = 2, Deaths = 2, Recovered = 5\<rparr>]],
      NameSortedCountries = [''A'', ''B''],
      ValueSortedCountries = [\<lparr>Key = ''B'', Value = 2\<rparr>, \<lparr>Key = ''A'', Value = 1\<rparr>]\<rparr>
     [(''A'', [\<lparr>Date = ''2020-1-22'', Confirmed = 1, Deaths = 1, Recovered = 1\<rparr>]),
      (''B'', [\<lparr>Date = ''2020-1-22'', Confirmed = 2, Deaths = 2, Recovered = 5\<rparr>])] ''all'' 1
   = Inr ([3], [3], [6])"
  using all_countries_by_first_country [of exact64 _
     "[(''A'', [\<lparr>Date = ''2020-1-22'', Confirmed = 1, Deaths = 1, Recovered = 1\<rparr>]),
       (''B'', [\<lparr>Date = ''2020-1-22'', Confirmed = 2, Deaths = 2, Recovered = 5\<rparr>])]" 1]
  by (simp add: date_total_def sum64_def visited_def window_def first_series_def exact64_def)

text \<open>
  Two countries with one record each, of different dates, and \<^verbatim>\<open>max = 1\<close>: whichever
  country the loop visits first, the view has the single entry of that country's date,
  and the date of the other country has none.
\<close>

theorem all_countries_dates_of_other_countries_missing:
  "DrawCountryBarChart exact64
     \<lparr>AllValues = [''A'' \<mapsto> [\<lparr>Date = ''2020-1-22'', Confirmed = 1, Deaths = 1, Recovered = 1\<rparr>],
                   ''B'' \<mapsto> [\<lparr>Date = ''2020-1-23'', Confirmed = 2, Deaths = 2, Recovered = 5\<rparr>]],
      NameSortedCountries = [''A'', ''B''],
      ValueSortedCountries = [\<lparr>Key = ''B'', Value = 2\<rparr>, \<lparr>Key = ''A'', Value = 1\<rparr>]\<rparr>
     [(''A'', [\<lparr>Date = ''2020-1-22'', Confirmed = 1, Deaths = 1, Recovered = 1\<rparr>]),
      (''B'', [\<lparr>Date = ''2020-1-23'', Confirmed = 2, Deaths = 2, Recovered = 5\<rparr>])] ''all'' 1
   = Inr ([''2020-1-22''], [1], [1], [2])
   \<and> DrawCountryBarChart exact64
     \<lparr>AllValues = [''A'' \<mapsto> [\<lparr>Date = ''2020-1-22'', Confirmed = 1, Deaths = 1, Recovered = 1\<rparr>],
                   ''B'' \<mapsto> [\<lparr>Date = ''2020-1-23'', Confirmed = 2, Deaths = 2, Recovered = 5\<rparr>]],
      NameSortedCountries = [''A'', ''B''],
      ValueSortedCountries = [\<lparr>Key = ''B'', Value = 2\<rparr>, \<lparr>Key = ''A'', Value = 1\<rparr>]\<rparr>
     [(''B'', [\<lparr>Date = ''2020-1-23'', Confirmed = 2, Deaths = 2, Recovered = 5\<rparr>]),
      (''A'', [\<lparr>Date = ''2020-1-22'', Confirmed = 1, Deaths = 1, Recovered = 1\<rparr>])] ''all'' 1
   = Inr ([''2020-1-23''], [2], [2], [7])
   \<and> DrawCountryLineChart exact64
     \<lparr>AllValues = [''A'' \<mapsto> [\<lparr>Date = ''2020-1-22'', Confirmed = 1, Deaths = 1, Recovered = 1\<rparr>],
                   ''B'' \<mapsto> [\<lparr>Date = ''2020-1-23'', Confirmed = 2, Deaths = 2, Recovered = 5\<rparr>]],
      NameSortedCountries = [''A'', ''B''],
      ValueSortedCountries = [\<lparr>Key = ''B'', Value = 2\<rparr>, \<lparr>Key = ''A'', Value = 1\<rparr>]\<rparr>
     [(''A'', [\<lparr>Date = ''2020-1-22'', Confirmed = 1, Deaths = 1, Recovered = 1\<rparr>]),
      (''B'', [\<lparr>Date = ''2020-1-23'', Confirmed = 2, Deaths = 2, Recovered = 5\<rparr>])] ''all'' 1
   = Inr ([1], [1], [1])
   \<and> DrawCountryLineChart exact64
     \<lparr>AllValues = [''A'' \<mapsto> [\<lparr>Date = ''2020-1-22'', Confirmed = 1, Deaths = 1, Recovered = 1\<rparr>],
                   ''B'' \<mapsto> [\<lparr>Date = ''2020-1-23'', Confirmed = 2, Deaths = 2, Recovered = 5\<rparr>]],
      NameSortedCountries = [''A'', ''B''],
      ValueSortedCountries = [\<lparr>Key = ''B'', Value = 2\<rparr>, \<lparr>Key = ''A'', Value = 1\<rparr>]\<rparr>
     [(''B'', [\<lparr>Date = ''2020-1-23'', Confirmed = 2, Deaths = 2, Recovered = 5\<rparr>]),
      (''A'', [\<lparr>Date = ''2020-1-22'', Confirmed = 1, Deaths = 1, Recovered = 1\<rparr>])] ''all'' 1
   = Inr ([2], [2], [5])"
  by (simp add: DrawCountryBarChart_def DrawCountryLineChart_def lastDays_loop.simps
      bar_body_def line_body_def getf_def exact64_def ReverseStrings_rev ReverseFloats_rev Let_def)

text \<open>
  Claim C1 at the example of the specification: countries \<^verbatim>\<open>A\<close> and \<^verbatim>\<open>B\<close> with one record
  each of the same date, recovered 1 and 5, \<^verbatim>\<open>max = 1\<close>. The recovered value of the bar
  chart is 8 or 4, by the order of the visit, as line 353 adds to the deaths sum; the
  line chart, whose line 470 adds to the recovered sum, has 6.
\<close>

theorem bar_chart_recovered_reads_deaths:
  "DrawCountryBarChart exact64
     \<lparr>AllValues = [''A'' \<mapsto> [\<lparr>Date = ''2020-1-22'', Confirmed = 1, Deaths = 1, Recovered = 1\<rparr>],
                   ''B'' \<mapsto> [\<lparr>Date = ''2020-1-22'', Confirmed = 2, Deaths = 2, Recovered = 5\<rparr>]],
      NameSortedCountries = [''A'', ''B''],
      ValueSortedCountries = [\<lparr>Key = ''B'', Value = 2\<rparr>, \<lparr>Key = ''A'', Value = 1\<rparr>]\<rparr>
     [(''A'', [\<lparr>Date = ''2020-1-22'', Confirmed = 1, Deaths = 1, Recovered = 1\<rparr>]),
      (''B'', [\<lparr>Date = ''2020-1-22'', Confirmed = 2, Deaths = 2, Recovered = 5\<rparr>])] ''all'' 1
   = Inr ([''2020-1-22''], [3], [3], [8])
   \<and> DrawCountryBarChart exact64
     \<lparr>AllValues = [''A'' \<mapsto> [\<lparr>Date = ''2020-1-22'', Confirmed = 1, Deaths = 1, Recovered = 1\<rparr>],
                   ''B'' \<mapsto> [\<lparr>Date = ''2020-1-22'', Confirmed = 2, Deaths = 2, Recovered = 5\<rparr>]],
      NameSortedCountries = [''A'', ''B''],
      ValueSortedCountries = [\<lparr>Key = ''B'', Value = 2\<rparr>, \<lparr>Key = ''A'', Value = 1\<rparr>]\<rparr>
     [(''B'', [\<lparr>Date = ''2020-1-22'', Confirmed = 2, Deaths = 2, Recovered = 5\<rparr>]),
      (''A'', [\<lparr>Date = ''2020-1-22'', Confirmed = 1, Deaths = 1, Recovered = 1\<rparr>])] ''all'' 1
   = Inr ([''2020-1-22''], [3], [3], [4])
   \<and> DrawCountryLineChart exact64
     \<lparr>AllValues = [''A'' \<mapsto> [\<lparr>Date = ''2020-1-22'', Confirmed = 1, Deaths = 1, Recovered = 1\<rparr>],
                   ''B'' \<mapsto> [\<lparr>Date = ''2020-1-22'', Confirmed = 2, Deaths = 2, Recovered = 5\<rparr>]],
      NameSortedCountries = [''A'', ''B''],
      ValueSortedCountries = [\<lparr>Key = ''B'', Value = 2\<rparr>, \<lparr>Key = ''A'', Value = 1\<rparr>]\<rparr>
     [(''B'', [\<lparr>Date = ''2020-1-22'', Confirmed = 2, Deaths = 2, Recovered = 5\<rparr>]),
      (''A'', [\<lparr>Date = ''2020-1-22'', Confirmed = 1, Deaths = 1, Recovered = 1\<rparr>])] ''all'' 1
   = Inr ([3], [3], [6])"
  by (simp add: DrawCountryBarChart_def DrawCountryLineChart_def lastDays_loop.simps
      bar_body_def line_body_def getf_def exact64_def ReverseStrings_rev ReverseFloats_rev Let_def)

subsection \<open>FetchData: the decoding and the two indexes\<close>

lemma appendNames_eq: "appendNames es names = names @ map fst es"
  by (induction es arbitrary: names) auto

lemma appendPairs_eq:
  "appendPairs es pairs =
     (if [] \<in> snd ` set es then Inl PanicIndexOutOfRange
      else Inr (pairs @ map (\<lambda>e. \<lparr>Key = fst e, Value = Confirmed (last (snd e))\<rparr>) es))"
proof (induction es arbitrary: pairs)
  case Nil
  then show ?case by simp
next
  case (Cons e es)
  obtain c v where e: "e = (c, v)" by (cases e)
  show ?case
  proof (cases "v = []")
    case True
    then show ?thesis by (simp add: e index_def)
  next
    case False
    then show ?thesis by (auto simp: e index_last Cons.IH)
  qed
qed

lemma ArrayEach_eq:
  "ArrayEach vs items = items @ map (\<lambda>a. snd (Unmarshal a zeroDayItem)) vs"
  by (induction vs arbitrary: items) auto

lemma ObjectEach_members_eq:
  "ObjectEach_members members av key =
     (case map_of (rev members) key of
        None \<Rightarrow> av key
      | Some v \<Rightarrow> Some (ArrayEach v []))"
proof (induction members arbitrary: av)
  case Nil
  then show ?case by simp
next
  case (Cons m members)
  obtain k v where m: "m = (k, v)" by (cases m)
  show ?case
    by (simp add: m Cons.IH map_add_def split: option.splits)
qed

lemma insertionSort_contract: "sort_contract insertionSort"
proof -
  { fix p :: PairList and i j
    assume ij: "i < j" "j < length p"
    have "sorted (map (\<lambda>x. - sint (Value x)) (insertionSort p))"
      by (simp add: insertionSort_def)
    moreover have "length (insertionSort p) = length p" by (simp add: insertionSort_def)
    ultimately have "map (\<lambda>x. - sint (Value x)) (insertionSort p) ! i
                   \<le> map (\<lambda>x. - sint (Value x)) (insertionSort p) ! j"
      using ij by (intro sorted_nth_mono) simp_all
    then have "\<not> Less (insertionSort p) j i"
      using ij \<open>length (insertionSort p) = length p\<close> by (simp add: Less_def) }
  then show ?thesis
    by (auto simp: sort_contract_def insertionSort_def)
qed

lemma range_order_dom: "range_order m es \<Longrightarrow> set (map fst es) = dom m"
  by (force simp: range_order_def dom_map_of_conv_image_fst)

lemma range_order_length: "range_order m es \<Longrightarrow> length es = card (dom m)"
proof -
  assume r: "range_order m es"
  then have "distinct (map fst es)" by (simp add: range_order_def)
  then have "card (set (map fst es)) = length (map fst es)" by (rule distinct_card)
  then show ?thesis using range_order_dom [OF r] by simp
qed

lemma FetchData_Inr:
  assumes "FetchData sortSort arrayData es1 es2 g0 = Inr g"
  shows "[] \<notin> snd ` set es2"
    and "NameSortedCountries g = sort (NameSortedCountries g0 @ map fst es1)"
    and "ValueSortedCountries g =
           sortSort (ValueSortedCountries g0 @ map (\<lambda>e. \<lparr>Key = fst e, Value = Confirmed (last (snd e))\<rparr>) es2)"
    and "AllValues g = fst (ObjectEach arrayData (AllValues g0))"
    and "arrayData \<noteq> NotObject"
  using assms
  by (auto simp: FetchData_def appendPairs_eq appendNames_eq sortStrings_def ObjectEach_def
      split: raw.splits if_splits prod.splits)

text \<open>
  Claim C5. When \<^verbatim>\<open>FetchData\<close> has decoded a dataset (it returned nil),
  \<^verbatim>\<open>NameSortedCountries\<close> is strictly ascending in the byte-wise order of strings and
  holds exactly the keys of \<^verbatim>\<open>AllValues\<close>, each once, in whatever order the loop of line
  222 visited the map.
\<close>

theorem NameIndex_sorted_keys:
  assumes "FetchData sortSort arrayData es1 es2 init_globals = Inr g"
    and "range_order (AllValues g) es1"
  shows "sorted_wrt (<) (NameSortedCountries g)
       \<and> set (NameSortedCountries g) = dom (AllValues g)
       \<and> distinct (NameSortedCountries g)
       \<and> length (NameSortedCountries g) = card (dom (AllValues g))"
proof -
  have n: "NameSortedCountries g = sort (map fst es1)"
    using FetchData_Inr(2) [OF assms(1)] by (simp add: init_globals_def)
  have d: "distinct (map fst es1)" using assms(2) by (simp add: range_order_def)
  have s: "set (map fst es1) = dom (AllValues g)" using assms(2) by (rule range_order_dom)
  have l: "length es1 = card (dom (AllValues g))" using assms(2) by (rule range_order_length)
  show ?thesis
    using d s l by (simp add: n strict_sorted_iff)
qed

lemma fieldOf_names:
  "fieldOf ''date'' = Some DateField" "fieldOf ''confirmed'' = Some ConfirmedField"
  "fieldOf ''deaths'' = Some DeathsField" "fieldOf ''recovered'' = Some RecoveredField"
  by (simp_all add: fieldOf_def to_lower_def)

lemma fieldOf_folds:
  "fieldOf ''Date'' = Some DateField" "fieldOf ''CONFIRMED'' = Some ConfirmedField"
  "fieldOf [CHR ''d'', CHR ''e'', CHR ''a'', CHR ''t'', CHR ''h'', CHR 0xC5, CHR 0xBF] = Some DeathsField"
  "fieldOf ''country'' = None"
  by (simp_all add: fieldOf_def to_lower_def)

lemma example_run:
  "FetchData insertionSort example_body [(''B'', series_B), (''A'', series_A)]
     [(''A'', series_A), (''B'', series_B)] init_globals = Inr example_globals"
  by (simp add: FetchData_def ObjectEach_def Unmarshal_def storeMember_def fieldOf_names
      storeString_def storeInt_def zeroDayItem_def init_globals_def index_def sortStrings_def
      insertionSort_def example_body_def example_globals_def series_A_def series_B_def)

lemma example_order:
  "range_order (AllValues example_globals) [(''B'', series_B), (''A'', series_A)]"
  "range_order (AllValues example_globals) [(''A'', series_A), (''B'', series_B)]"
  by (auto simp: range_order_def example_globals_def)

text \<open>The example: the names \<^verbatim>\<open>B\<close>, \<^verbatim>\<open>A\<close> as visited, \<^verbatim>\<open>A\<close>, \<^verbatim>\<open>B\<close> as sorted.\<close>

theorem NameIndex_sorted_keys_witness:
  "FetchData insertionSort example_body [(''B'', series_B), (''A'', series_A)]
     [(''A'', series_A), (''B'', series_B)] init_globals = Inr example_globals
   \<and> sorted_wrt (<) (NameSortedCountries example_globals)
   \<and> set (NameSortedCountries example_globals) = dom (AllValues example_globals)
   \<and> NameSortedCountries example_globals = [''A'', ''B'']"
  using NameIndex_sorted_keys [OF example_run example_order(1)] example_run
  by (simp add: example_globals_def)

lemma mset_eq_map_distinct:
  assumes "mset xs = mset ys" and "distinct (map f ys)"
  shows "distinct (map f xs)"
proof -
  have "mset (map f xs) = mset (map f ys)" using assms(1) by simp
  then have "distinct (map f xs) = distinct (map f ys)" by (rule mset_eq_imp_distinct_iff)
  with assms(2) show ?thesis by simp
qed

text \<open>
  Claim C4. When \<^verbatim>\<open>FetchData\<close> has decoded a dataset (it returned nil),
  \<^verbatim>\<open>ValueSortedCountries\<close> has as many entries as the dataset has countries, one for
  each country; an entry pairs the country with the confirmed count of the last record
  of its series; and for positions \<open>i < j\<close> the count at \<open>i\<close> is at least the count at
  \<open>j\<close>. This holds for every routine that keeps the contract of \<^verbatim>\<open>sort.Sort\<close>, stable or
  not, and for every order of the visit of line 227.
\<close>

theorem RankIndex_descending:
  assumes "FetchData sortSort arrayData es1 es2 init_globals = Inr g"
    and "range_order (AllValues g) es2"
    and "sort_contract sortSort"
  shows "length (ValueSortedCountries g) = card (dom (AllValues g))
       \<and> distinct (map Key (ValueSortedCountries g))
       \<and> set (map Key (ValueSortedCountries g)) = dom (AllValues g)
       \<and> (\<forall>p \<in> set (ValueSortedCountries g).
            AllValues g (Key p) \<noteq> Some [] \<and> Value p = Confirmed (latest (AllValues g) (Key p)))
       \<and> (\<forall>i j. i < j \<and> j < length (ValueSortedCountries g) \<longrightarrow>
            sint (Value (ValueSortedCountries g ! j)) \<le> sint (Value (ValueSortedCountries g ! i)))"
proof -
  define mk where "mk = (\<lambda>e :: string \<times> DayItem list. \<lparr>Key = fst e, Value = Confirmed (last (snd e))\<rparr>)"
  define pairs where "pairs = map mk es2"
  let ?v = "ValueSortedCountries g"
  have v: "?v = sortSort pairs"
    using FetchData_Inr(3) [OF assms(1)] by (simp add: init_globals_def pairs_def mk_def)
  have ne: "[] \<notin> snd ` set es2" using FetchData_Inr(1) [OF assms(1)] .
  have ms: "mset ?v = mset pairs" using assms(3) by (simp add: v sort_contract_def)
  have len: "length ?v = length pairs" using ms by (rule mset_eq_length)
  have d: "distinct (map fst es2)" and m: "map_of es2 = AllValues g"
    using assms(2) by (simp_all add: range_order_def)
  have keys: "map Key pairs = map fst es2" by (simp add: pairs_def mk_def)
  have 1: "length ?v = card (dom (AllValues g))"
    using range_order_length [OF assms(2)] by (simp add: len pairs_def)
  have "distinct (map Key pairs)" using d by (simp add: keys)
  with ms have 2: "distinct (map Key ?v)" by (rule mset_eq_map_distinct)
  have "set ?v = set pairs" using ms by (rule mset_eq_setD)
  then have sv: "set ?v = mk ` set es2" by (simp add: pairs_def)
  have 3: "set (map Key ?v) = dom (AllValues g)"
    using range_order_dom [OF assms(2)] by (simp add: sv image_image mk_def)
  have 4: "\<forall>p \<in> set ?v.
            AllValues g (Key p) \<noteq> Some [] \<and> Value p = Confirmed (latest (AllValues g) (Key p))"
  proof
    fix p assume "p \<in> set ?v"
    then obtain e where e: "e \<in> set es2" and p: "p = mk e" by (auto simp: sv)
    from e have "(fst e, snd e) \<in> set es2" by simp
    with d have "map_of es2 (fst e) = Some (snd e)" by (rule map_of_is_SomeI)
    then have look: "AllValues g (Key p) = Some (snd e)" by (simp add: m p mk_def)
    moreover have "snd e \<noteq> []" using e ne by force
    ultimately show "AllValues g (Key p) \<noteq> Some [] \<and> Value p = Confirmed (latest (AllValues g) (Key p))"
      by (simp add: latest_def) (simp add: p mk_def)
  qed
  have 5: "\<forall>i j. i < j \<and> j < length ?v \<longrightarrow> sint (Value (?v ! j)) \<le> sint (Value (?v ! i))"
  proof (intro allI impI)
    fix i j assume "i < j \<and> j < length ?v"
    then have "i < j \<and> j < length pairs" by (simp add: len)
    then have "\<not> Less (sortSort pairs) j i"
      using assms(3) by (simp add: sort_contract_def)
    then show "sint (Value (?v ! j)) \<le> sint (Value (?v ! i))"
      by (simp add: v Less_def)
  qed
  show ?thesis by (rule conjI [OF 1 conjI [OF 2 conjI [OF 3 conjI [OF 4 5]]]])
qed

text \<open>The example: \<^verbatim>\<open>B\<close> with 10 before \<^verbatim>\<open>A\<close> with 5.\<close>

theorem RankIndex_descending_witness:
  "FetchData insertionSort example_body [(''B'', series_B), (''A'', series_A)]
     [(''A'', series_A), (''B'', series_B)] init_globals = Inr example_globals
   \<and> length (ValueSortedCountries example_globals) = card (dom (AllValues example_globals))
   \<and> sint (Value (ValueSortedCountries example_globals ! 1))
        \<le> sint (Value (ValueSortedCountries example_globals ! 0))
   \<and> ValueSortedCountries example_globals = [\<lparr>Key = ''B'', Value = 10\<rparr>, \<lparr>Key = ''A'', Value = 5\<rparr>]"
proof -
  have "length (ValueSortedCountries example_globals) = card (dom (AllValues example_globals))
      \<and> sint (Value (ValueSortedCountries example_globals ! 1))
           \<le> sint (Value (ValueSortedCountries example_globals ! 0))"
    using RankIndex_descending [OF example_run example_order(2) insertionSort_contract]
    by (simp add: example_globals_def)
  then show ?thesis
    using example_run by (simp add: example_globals_def)
qed

subsection \<open>FetchData: errors of the decoding\<close>

text \<open>
  Claim C9. On a well-formed JSON text, \<^verbatim>\<open>FetchData\<close> returns the decode error
  (\<^verbatim>\<open>MalformedObjectError\<close>) if and only if the top-level structure of the text is not a
  JSON object: a top-level array yields the error, and a top-level object never does
  (it yields nil or, with an empty array for a country, the panic of line 228).
\<close>

theorem DecodeError_iff_not_object:
  assumes "range_order (fst (ObjectEach arrayData Map.empty)) es2"
  shows "(FetchData sortSort arrayData es1 es2 init_globals = Inl MalformedObjectError)
           = (arrayData = NotObject)"
proof (cases arrayData)
  case NotObject
  with assms have "map_of es2 = Map.empty"
    by (simp add: range_order_def ObjectEach_def)
  then have "es2 = []" by (simp only: map_of_eq_empty_iff)
  then show ?thesis
    using NotObject by (simp add: FetchData_def ObjectEach_def)
next
  case (Object members)
  then show ?thesis
    by (simp add: FetchData_def ObjectEach_def appendPairs_eq)
qed

text \<open>A body that is no object, and the example body.\<close>

theorem DecodeError_iff_not_object_witness:
  "FetchData insertionSort NotObject [] [] init_globals = Inl MalformedObjectError
   \<and> FetchData insertionSort example_body [(''B'', series_B), (''A'', series_A)]
        [(''A'', series_A), (''B'', series_B)] init_globals \<noteq> Inl MalformedObjectError"
proof -
  have a: "range_order (fst (ObjectEach NotObject Map.empty)) []"
    by (simp add: range_order_def ObjectEach_def)
  have "AllValues example_globals = fst (ObjectEach example_body (AllValues init_globals))"
    using example_run by (rule FetchData_Inr(4))
  then have b: "range_order (fst (ObjectEach example_body Map.empty)) [(''A'', series_A), (''B'', series_B)]"
    using example_order(2) by (simp add: init_globals_def)
  show ?thesis
    using DecodeError_iff_not_object [OF a, of insertionSort "[]"]
      DecodeError_iff_not_object [OF b, of insertionSort "[(''B'', series_B), (''A'', series_A)]"]
    by (simp add: example_body_def)
qed

subsection \<open>FetchData: the records of the elements\<close>

lemma storeString_eq:
  "storeString v old =
     (v \<noteq> JNull \<and> stringOf v = None, (case stringOf v of None \<Rightarrow> old | Some s \<Rightarrow> s))"
  by (cases v) (simp_all add: storeString_def stringOf_def)

lemma storeInt_eq:
  "storeInt v old =
     (v \<noteq> JNull \<and> intOf v = None, (case intOf v of None \<Rightarrow> old | Some n \<Rightarrow> n))"
proof (cases v)
  case (JNumber x)
  then show ?thesis
    by (cases x) (simp_all add: storeInt_def intOf_def fits_int64_def)
qed (simp_all add: storeInt_def intOf_def)

lemma storeMember_eq:
  "storeMember kv (e, d) =
     (e \<or> memberFails kv,
      \<lparr>Date = last (Date d # memberValues DateField stringOf [kv]),
       Confirmed = last (Confirmed d # memberValues ConfirmedField intOf [kv]),
       Deaths = last (Deaths d # memberValues DeathsField intOf [kv]),
       Recovered = last (Recovered d # memberValues RecoveredField intOf [kv])\<rparr>)"
proof (cases kv)
  case (Pair k v)
  show ?thesis
  proof (cases "fieldOf k")
    case None
    then show ?thesis
      by (simp add: Pair storeMember_def memberFails_def memberValues_def)
  next
    case (Some f)
    then show ?thesis
      by (cases f)
        (auto simp: Pair storeMember_def memberFails_def memberValues_def
          storeString_eq storeInt_eq split: option.splits)
  qed
qed

lemma memberValues_Cons:
  "memberValues f parse (kv # ms) = memberValues f parse [kv] @ memberValues f parse ms"
  by (simp add: memberValues_def split: option.splits)

lemma last_member_step:
  "last (last (x # memberValues f parse [kv]) # memberValues f parse ms)
     = last (x # memberValues f parse (kv # ms))"
  by (subst (2) memberValues_Cons)
    (simp add: memberValues_def split: option.splits)

lemma fold_storeMember:
  "fold storeMember ms (e, d) =
     (e \<or> list_ex memberFails ms,
      \<lparr>Date = last (Date d # memberValues DateField stringOf ms),
       Confirmed = last (Confirmed d # memberValues ConfirmedField intOf ms),
       Deaths = last (Deaths d # memberValues DeathsField intOf ms),
       Recovered = last (Recovered d # memberValues RecoveredField intOf ms)\<rparr>)"
proof (induction ms arbitrary: e d)
  case Nil
  then show ?case by (simp add: memberValues_def)
next
  case (Cons kv ms)
  show ?case
    by (simp only: fold_simps storeMember_eq Cons.IH DayItem.simps last_member_step
        list_ex_Cons_iff disj_assoc o_apply)
qed

lemma Unmarshal_eq: "Unmarshal a zeroDayItem = (failsToParse a, recordOf a)"
proof (cases a)
  case NotJSON
  then show ?thesis by (simp add: Unmarshal_def failsToParse_def recordOf_def)
next
  case (JSON v)
  then show ?thesis
    by (cases v)
      (simp_all add: Unmarshal_def failsToParse_def recordOf_def fold_storeMember zeroDayItem_def)
qed

text \<open>
  Claim C10, as the code has it. When a country's array is decoded, an element that fails
  to parse is not skipped: the record that \<^verbatim>\<open>json.Unmarshal\<close> left of the zero-valued
  \<^verbatim>\<open>dayItem\<close> is appended in its place, so the decoded series has one record per element
  of the array, in order, and its length is the number of elements. That record is
  \<open>recordOf\<close> of the element, whether the element fails to parse or not: zero-valued in
  every field when the element is not a JSON object, and for an object each field with
  the value of the last member that names it and parses, zero-valued only when no member
  does. (Of two members with the same country key the later one counts.)
\<close>

theorem decode_appends_every_element:
  assumes "map_of (rev members) key = Some elems"
  shows "fst (ObjectEach (Object members) av) key = Some (map recordOf elems)
       \<and> length (map recordOf elems) = length elems
       \<and> (\<forall>a. Unmarshal a zeroDayItem = (failsToParse a, recordOf a))"
  using assms
  by (simp add: ObjectEach_def ObjectEach_members_eq ArrayEach_eq Unmarshal_eq)

text \<open>
  An array of bytes that are no JSON, a number, a well-formed day, and a day with two
  members that fail.
\<close>

theorem decode_appends_every_element_witness:
  "fst (ObjectEach
         (Object [(''A'', [NotJSON, JSON (JNumber (IntLit 7)),
                           JSON (JObject [(''date'', JString ''2020-1-22''),
                                          (''confirmed'', JNumber (IntLit 5)),
                                          (''deaths'', JNumber (IntLit 1)),
                                          (''recovered'', JNumber (IntLit 2))]),
                           JSON (JObject [(''date'', JString ''2020-1-23''),
                                          (''confirmed'', JNumber OtherNumber),
                                          (''Deaths'', JNumber (IntLit 3)),
                                          (''recovered'', JBool True),
                                          (''recovered'', JNumber (IntLit 4))])])])
         Map.empty) ''A''
   = Some [zeroDayItem, zeroDayItem,
           \<lparr>Date = ''2020-1-22'', Confirmed = 5, Deaths = 1, Recovered = 2\<rparr>,
           \<lparr>Date = ''2020-1-23'', Confirmed = 0, Deaths = 3, Recovered = 4\<rparr>]"
proof -
  let ?elems = "[NotJSON, JSON (JNumber (IntLit 7)),
                 JSON (JObject [(''date'', JString ''2020-1-22''),
                                (''confirmed'', JNumber (IntLit 5)),
                                (''deaths'', JNumber (IntLit 1)),
                                (''recovered'', JNumber (IntLit 2))]),
                 JSON (JObject [(''date'', JString ''2020-1-23''),
                                (''confirmed'', JNumber OtherNumber),
                                (''Deaths'', JNumber (IntLit 3)),
                                (''recovered'', JBool True),
                                (''recovered'', JNumber (IntLit 4))])]"
  have a: "map_of (rev [(''A'', ?elems)]) ''A'' = Some ?elems" by simp
  have f: "fieldOf ''Deaths'' = Some DeathsField" by (simp add: fieldOf_def to_lower_def)
  show ?thesis
    using decode_appends_every_element [OF a, of Map.empty]
    by (simp add: recordOf_def memberValues_def fieldOf_names f
        stringOf_def intOf_def fits_int64_def zeroDayItem_def)
qed

text \<open>
  A day whose \<^verbatim>\<open>confirmed\<close> is a string: \<^verbatim>\<open>json.Unmarshal\<close> reports an error, and the record
  appended has the date, the deaths and the recovered count of the element; it is not
  the record of zero-valued fields.
\<close>

theorem failed_element_keeps_parsed_fields:
  "fst (Unmarshal (JSON (JObject [(''date'', JString ''2020-1-22''),
                                  (''confirmed'', JString ''x''),
                                  (''deaths'', JNumber (IntLit 1)),
                                  (''recovered'', JNumber (IntLit 2))])) zeroDayItem)
   \<and> fst (ObjectEach
         (Object [(''A'', [JSON (JObject [(''date'', JString ''2020-1-22''),
                                          (''confirmed'', JString ''x''),
                                          (''deaths'', JNumber (IntLit 1)),
                                          (''recovered'', JNumber (IntLit 2))])])])
         Map.empty) ''A''
       = Some [\<lparr>Date = ''2020-1-22'', Confirmed = 0, Deaths = 1, Recovered = 2\<rparr>]
   \<and> \<lparr>Date = ''2020-1-22'', Confirmed = 0, Deaths = 1, Recovered = 2\<rparr> \<noteq> zeroDayItem"
  by (simp add: ObjectEach_def Unmarshal_def storeMember_def fieldOf_names storeString_def
      storeInt_def zeroDayItem_def)

end
